theory Spec2Isabelle
  imports Main "HOL-Library.Sublist"
begin

section \<open>JavaScript values\<close>

text \<open>
  The hooks receive their rows as \<^verbatim>\<open>any\<close>: a value decoded from JSON, or
  \<^verbatim>\<open>undefined\<close> where a property is absent. Numbers are the integers (ids, line
  numbers, indices and counts are all the numbers these functions handle); an object is
  the list of its properties, the first entry of a key being the property.
\<close>

datatype js =
    Undefined
  | Null
  | Bool bool
  | Num int
  | Str string
  | Arr "js list"
  | Obj "(string \<times> js) list"

datatype error =
    TypeError
  | SyntaxError
  | Error string

text \<open>\<^verbatim>\<open>if (x)\<close>, \<^verbatim>\<open>x && y\<close>, \<^verbatim>\<open>x || y\<close>: the falsy values are
  \<^verbatim>\<open>undefined\<close>, \<^verbatim>\<open>null\<close>, \<^verbatim>\<open>false\<close>, \<^verbatim>\<open>0\<close> and \<^verbatim>\<open>''\<close>.\<close>

fun truthy :: "js \<Rightarrow> bool" where
  "truthy Undefined = False"
| "truthy Null = False"
| "truthy (Bool b) = b"
| "truthy (Num n) = (n \<noteq> 0)"
| "truthy (Str s) = (s \<noteq> [])"
| "truthy (Arr xs) = True"
| "truthy (Obj kvs) = True"

definition js_or :: "js \<Rightarrow> js \<Rightarrow> js" where
  "js_or a b = (if truthy a then a else b)"

fun nullish :: "js \<Rightarrow> bool" where
  "nullish Undefined = True"
| "nullish Null = True"
| "nullish v = False"

text \<open>Reading a property \<^verbatim>\<open>x.k\<close> of a value that is neither \<^verbatim>\<open>null\<close> nor
  \<^verbatim>\<open>undefined\<close>, for the property names this program reads: an absent property is
  \<^verbatim>\<open>undefined\<close>; strings and arrays have their \<^verbatim>\<open>length\<close>.\<close>

fun get :: "js \<Rightarrow> string \<Rightarrow> js" where
  "get (Obj kvs) k = (case map_of kvs k of None \<Rightarrow> Undefined | Some v \<Rightarrow> v)"
| "get (Str s) k = (if k = ''length'' then Num (int (length s)) else Undefined)"
| "get (Arr xs) k = (if k = ''length'' then Num (int (length xs)) else Undefined)"
| "get v k = Undefined"

text \<open>\<^verbatim>\<open>x.k\<close> in general: a TypeError on \<^verbatim>\<open>null\<close> and \<^verbatim>\<open>undefined\<close>.\<close>

definition read_prop :: "js \<Rightarrow> string \<Rightarrow> error + js" where
  "read_prop x k = (if nullish x then Inl TypeError else Inr (get x k))"

text \<open>Optional chaining \<^verbatim>\<open>x?.k\<close>.\<close>

definition opt_get :: "js \<Rightarrow> string \<Rightarrow> js" where
  "opt_get x k = (if nullish x then Undefined else get x k)"

subsection \<open>Conversion to a string, as a template literal does it\<close>

definition digit :: "nat \<Rightarrow> char" where
  "digit d = ''0123456789'' ! d"

fun decimal :: "nat \<Rightarrow> string" where
  "decimal n = (if n < 10 then [digit n] else decimal (n div 10) @ [digit (n mod 10)])"

declare decimal.simps [simp del]

definition number_to_string :: "int \<Rightarrow> string" where
  "number_to_string i = (if 0 \<le> i then decimal (nat i) else CHR ''-'' # decimal (nat (- i)))"

fun join :: "string \<Rightarrow> string list \<Rightarrow> string" where
  "join sep [] = []"
| "join sep [s] = s"
| "join sep (s # t # ss) = s @ sep @ join sep (t # ss)"

text \<open>An array joins its elements with commas, \<^verbatim>\<open>null\<close> and \<^verbatim>\<open>undefined\<close>
  elements as the empty string; an object decoded from JSON prints as
  \<^verbatim>\<open>[object Object]\<close>.\<close>

fun to_string :: "js \<Rightarrow> string" where
  "to_string Undefined = ''undefined''"
| "to_string Null = ''null''"
| "to_string (Bool b) = (if b then ''true'' else ''false'')"
| "to_string (Num n) = number_to_string n"
| "to_string (Str s) = s"
| "to_string (Arr xs) = join '','' (map (\<lambda>x. if nullish x then [] else to_string x) xs)"
| "to_string (Obj kvs) = ''[object Object]''"

section \<open>Normalized messages\<close>

datatype role = human | ai

record MessageSegment =
  seg_text :: js
  seg_citation_id :: "nat option"

record Citation =
  citation_id :: nat
  source_id :: js
  source_title :: js
  source_type :: js
  chunk_lines_from :: js
  chunk_lines_to :: js
  chunk_index :: js
  excerpt :: js

text \<open>The content of a message: a value passed through as it came, or the
  \<^verbatim>\<open>{segments, citations}\<close> object a normalizer builds.\<close>

datatype content =
    Raw js
  | Structured "MessageSegment list" "Citation list"

record Message =
  msg_type :: role
  content :: content
  additional_kwargs :: js
  response_metadata :: js
  tool_calls :: js
  invalid_tool_calls :: js

record EnhancedChatMessage =
  msg_id :: js
  session_id :: js
  message :: Message

text \<open>A message literal that gives only \<^verbatim>\<open>type\<close> and \<^verbatim>\<open>content\<close>.\<close>

definition plain_message :: "role \<Rightarrow> content \<Rightarrow> Message" where
  "plain_message r c =
     \<lparr>msg_type = r, content = c, additional_kwargs = Undefined,
      response_metadata = Undefined, tool_calls = Undefined, invalid_tool_calls = Undefined\<rparr>"

section \<open>The row schema: one chat\_messages row\<close>

record ChatRow =
  row_id :: js
  notebook_id :: js
  user_message :: js
  assistant_response :: js
  row_citations :: js

type_synonym bookMap = "string \<Rightarrow> js option"

text \<open>The callback of \<^verbatim>\<open>item.citations.map\<close> in transformDbRowToChatMessages. Each
  field is read from the citation itself, so a \<^verbatim>\<open>null\<close> element raises.\<close>

definition transformCitation :: "js \<Rightarrow> nat \<Rightarrow> error + Citation" where
  "transformCitation citation index =
     (if nullish citation then Inl TypeError
      else Inr \<lparr>citation_id = index + 1,
                source_id = js_or (get citation ''source_id'') (Str ''''),
                source_title = js_or (get citation ''source_title'') (Str ''Unknown Source''),
                source_type = js_or (get citation ''source_type'') (Str ''book''),
                chunk_lines_from = get citation ''chunk_lines_from'',
                chunk_lines_to = get citation ''chunk_lines_to'',
                chunk_index = js_or (get citation ''chunk_index'') (Num (int index)),
                excerpt = get citation ''excerpt''\<rparr>)"

text \<open>\<^verbatim>\<open>Array.prototype.map\<close> with the index, stopping at the first exception.\<close>

fun mapCitations :: "js list \<Rightarrow> nat \<Rightarrow> error + Citation list" where
  "mapCitations [] index = Inr []"
| "mapCitations (c # cs) index =
     (case transformCitation c index of
        Inl e \<Rightarrow> Inl e
      | Inr t \<Rightarrow> (case mapCitations cs (Suc index) of
                   Inl e \<Rightarrow> Inl e
                 | Inr ts \<Rightarrow> Inr (t # ts)))"

text \<open>transformDbRowToChatMessages (the hook that flattens rows with \<^verbatim>\<open>flatMap\<close>).\<close>

definition transformDbRowToChatMessages :: "ChatRow \<Rightarrow> bookMap \<Rightarrow> error + EnhancedChatMessage list" where
  "transformDbRowToChatMessages item bookMap =
     (let userMessage =
            \<lparr>msg_id = Str (to_string (row_id item) @ ''-user''),
             session_id = notebook_id item,
             message = plain_message human (Raw (user_message item))\<rparr>
      in if truthy (assistant_response item) then
           (case (case row_citations item of
                    Arr cs \<Rightarrow>
                      (if cs \<noteq> [] then
                         (case mapCitations cs 0 of
                            Inl e \<Rightarrow> Inl e
                          | Inr transformedCitations \<Rightarrow>
                              Inr (Structured
                                     [\<lparr>seg_text = assistant_response item,
                                       seg_citation_id =
                                         (if length transformedCitations > 0 then Some 1 else None)\<rparr>]
                                     transformedCitations))
                       else Inr (Raw (assistant_response item)))
                  | _ \<Rightarrow> Inr (Raw (assistant_response item))) of
              Inl e \<Rightarrow> Inl e
            | Inr messageContent \<Rightarrow>
                Inr [userMessage,
                     \<lparr>msg_id = Str (to_string (row_id item) @ ''-assistant''),
                      session_id = notebook_id item,
                      message = plain_message ai messageContent\<rparr>])
         else Inr [userMessage])"

text \<open>transformChatMessage (the other version of the hook, which maps rows with
  \<^verbatim>\<open>map\<close>): it returns both messages for every row.\<close>

definition transformChatMessage :: "ChatRow \<Rightarrow> bookMap \<Rightarrow> EnhancedChatMessage list" where
  "transformChatMessage item bookMap =
     [\<lparr>msg_id = Str (to_string (row_id item) @ ''-user''),
       session_id = notebook_id item,
       message = plain_message human (Raw (user_message item))\<rparr>,
      \<lparr>msg_id = Str (to_string (row_id item) @ ''-assistant''),
       session_id = notebook_id item,
       message = plain_message ai (Raw (js_or (assistant_response item) (Str ''No response yet'')))\<rparr>]"

section \<open>The legacy encoding: a message with \<^verbatim>\<open>type\<close> and \<^verbatim>\<open>content\<close>\<close>

text \<open>
  Two operations of the platform are parameters of the model: \<^verbatim>\<open>JSON.parse\<close>, which
  returns the decoded value or raises, and the numeric reading of a string in a comparison
  with zero (\<^verbatim>\<open>s > 0\<close>).
\<close>

record platform =
  JSON_parse :: "string \<Rightarrow> error + js"
  string_gt_zero :: "string \<Rightarrow> bool"

text \<open>\<^verbatim>\<open>x > 0\<close> for any value: \<^verbatim>\<open>undefined\<close>, \<^verbatim>\<open>null\<close> and an object decoded
  from JSON are not greater than zero; an array is compared through its string.\<close>

fun gt_zero :: "platform \<Rightarrow> js \<Rightarrow> bool" where
  "gt_zero pf Undefined = False"
| "gt_zero pf Null = False"
| "gt_zero pf (Bool b) = b"
| "gt_zero pf (Num n) = (0 < n)"
| "gt_zero pf (Str s) = string_gt_zero pf s"
| "gt_zero pf (Arr xs) = string_gt_zero pf (to_string (Arr xs))"
| "gt_zero pf (Obj kvs) = False"

record LegacyItem =
  leg_id :: js
  leg_session_id :: js
  leg_message :: js

text \<open>\<^verbatim>\<open>sourceMap.get(k)\<close>: the keys of the map are strings.\<close>

fun map_get :: "bookMap \<Rightarrow> js \<Rightarrow> js" where
  "map_get m (Str s) = (case m s of None \<Rightarrow> Undefined | Some v \<Rightarrow> v)"
| "map_get m k = Undefined"

text \<open>\<^verbatim>\<open>outputItem.citations && outputItem.citations.length > 0\<close>, for an output item
  that is neither \<^verbatim>\<open>null\<close> nor \<^verbatim>\<open>undefined\<close>.\<close>

definition has_citations :: "platform \<Rightarrow> js \<Rightarrow> bool" where
  "has_citations pf outputItem =
     (truthy (get outputItem ''citations'') \<and>
      gt_zero pf (get (get outputItem ''citations'') ''length''))"

text \<open>The callback of the inner \<^verbatim>\<open>forEach\<close>: one citation of an output item.\<close>

definition legacyCitation :: "bookMap \<Rightarrow> nat \<Rightarrow> js \<Rightarrow> error + Citation" where
  "legacyCitation sourceMap citationIdCounter citation =
     (if nullish citation then Inl TypeError
      else
        let sourceInfo = map_get sourceMap (get citation ''chunk_source_id'')
        in Inr \<lparr>citation_id = citationIdCounter,
                 source_id = get citation ''chunk_source_id'',
                 source_title = js_or (opt_get sourceInfo ''title'') (Str ''Unknown Source''),
                 source_type = js_or (opt_get sourceInfo ''type'') (Str ''pdf''),
                 chunk_lines_from = get citation ''chunk_lines_from'',
                 chunk_lines_to = get citation ''chunk_lines_to'',
                 chunk_index = get citation ''chunk_index'',
                 excerpt = Str (''Lines '' @ to_string (get citation ''chunk_lines_from'') @ ''-''
                                @ to_string (get citation ''chunk_lines_to''))\<rparr>)"

fun pushCitations :: "bookMap \<Rightarrow> nat \<Rightarrow> js list \<Rightarrow> Citation list \<Rightarrow> error + Citation list" where
  "pushCitations sourceMap counter [] citations = Inr citations"
| "pushCitations sourceMap counter (c # cs) citations =
     (case legacyCitation sourceMap counter c of
        Inl e \<Rightarrow> Inl e
      | Inr t \<Rightarrow> pushCitations sourceMap counter cs (citations @ [t]))"

text \<open>The callback of the outer \<^verbatim>\<open>forEach\<close>, on the state
  (segments, citations, citationIdCounter). Calling \<^verbatim>\<open>forEach\<close> on a value that is
  not an array raises.\<close>

definition processOutputItem ::
  "platform \<Rightarrow> bookMap \<Rightarrow> js \<Rightarrow> MessageSegment list \<times> Citation list \<times> nat
     \<Rightarrow> error + MessageSegment list \<times> Citation list \<times> nat" where
  "processOutputItem pf sourceMap outputItem st =
     (case st of (segments, citations, citationIdCounter) \<Rightarrow>
        if nullish outputItem then Inl TypeError
        else
          let segments' = segments @
                [\<lparr>seg_text = get outputItem ''text'',
                  seg_citation_id =
                    (if has_citations pf outputItem then Some citationIdCounter else None)\<rparr>]
          in if has_citations pf outputItem then
               (case get outputItem ''citations'' of
                  Arr cs \<Rightarrow>
                    (case pushCitations sourceMap citationIdCounter cs citations of
                       Inl e \<Rightarrow> Inl e
                     | Inr citations' \<Rightarrow> Inr (segments', citations', citationIdCounter + 1))
                | _ \<Rightarrow> Inl TypeError)
             else Inr (segments', citations, citationIdCounter))"

fun forEachOutput ::
  "platform \<Rightarrow> bookMap \<Rightarrow> js list \<Rightarrow> MessageSegment list \<times> Citation list \<times> nat
     \<Rightarrow> error + MessageSegment list \<times> Citation list \<times> nat" where
  "forEachOutput pf sourceMap [] st = Inr st"
| "forEachOutput pf sourceMap (outputItem # rest) st =
     (case processOutputItem pf sourceMap outputItem st of
        Inl e \<Rightarrow> Inl e
      | Inr st' \<Rightarrow> forEachOutput pf sourceMap rest st')"

text \<open>A message that keeps the four pass-through fields of the stored object.\<close>

definition kept_message :: "js \<Rightarrow> role \<Rightarrow> content \<Rightarrow> Message" where
  "kept_message messageObj r c =
     \<lparr>msg_type = r, content = c,
      additional_kwargs = get messageObj ''additional_kwargs'',
      response_metadata = get messageObj ''response_metadata'',
      tool_calls = get messageObj ''tool_calls'',
      invalid_tool_calls = get messageObj ''invalid_tool_calls''\<rparr>"

text \<open>The body of the \<^verbatim>\<open>try\<close> block: everything that can raise in transformMessage.\<close>

definition parseAiContent :: "platform \<Rightarrow> bookMap \<Rightarrow> js \<Rightarrow> error + Message" where
  "parseAiContent pf sourceMap messageObj =
     (case JSON_parse pf (to_string (get messageObj ''content'')) of
        Inl e \<Rightarrow> Inl e
      | Inr parsedContent \<Rightarrow>
          (case read_prop parsedContent ''output'' of
             Inl e \<Rightarrow> Inl e
           | Inr (Arr output) \<Rightarrow>
               (case forEachOutput pf sourceMap output ([], [], 1) of
                  Inl e \<Rightarrow> Inl e
                | Inr (segments, citations, counter) \<Rightarrow>
                    Inr (kept_message messageObj ai (Structured segments citations)))
           | Inr _ \<Rightarrow> Inr (kept_message messageObj ai (Raw (get messageObj ''content'')))))"

text \<open>\<^verbatim>\<open>try { ... } catch (e) { ... }\<close>.\<close>

definition try_catch :: "error + 'a \<Rightarrow> (error \<Rightarrow> error + 'a) \<Rightarrow> error + 'a" where
  "try_catch body handler = (case body of Inl e \<Rightarrow> handler e | Inr v \<Rightarrow> Inr v)"

fun is_string :: "js \<Rightarrow> bool" where
  "is_string (Str s) = True"
| "is_string v = False"

text \<open>\<^verbatim>\<open>m && typeof m === 'object' && !Array.isArray(m) && 'type' in m && 'content' in m\<close>.\<close>

fun is_legacy_object :: "js \<Rightarrow> bool" where
  "is_legacy_object (Obj kvs) = (map_of kvs ''type'' \<noteq> None \<and> map_of kvs ''content'' \<noteq> None)"
| "is_legacy_object v = False"

definition transformMessage :: "platform \<Rightarrow> LegacyItem \<Rightarrow> bookMap \<Rightarrow> error + EnhancedChatMessage" where
  "transformMessage pf item sourceMap =
     (case
        (if is_legacy_object (leg_message item) then
           (let messageObj = leg_message item
            in if get messageObj ''type'' = Str ''ai'' \<and> is_string (get messageObj ''content'') then
                 try_catch (parseAiContent pf sourceMap messageObj)
                   (\<lambda>parseError. Inr (kept_message messageObj ai (Raw (get messageObj ''content''))))
               else
                 Inr (kept_message messageObj
                        (if get messageObj ''type'' = Str ''human'' then human else ai)
                        (Raw (js_or (get messageObj ''content'') (Str ''Empty message'')))))
         else if is_string (leg_message item) then
           Inr (plain_message human (Raw (leg_message item)))
         else
           Inr (plain_message human (Raw (Str ''Unable to parse message'')))) of
        Inl e \<Rightarrow> Inl e
      | Inr transformedMessage \<Rightarrow>
          Inr \<lparr>msg_id = leg_id item, session_id = leg_session_id item,
               message = transformedMessage\<rparr>)"

section \<open>The query cache of the chat messages\<close>

text \<open>
  The cache holds, under the key \<^verbatim>\<open>['chat-messages', notebookId]\<close>, the data of the
  query (\<^verbatim>\<open>undefined\<close> before the first fetch) and whether the query has been
  invalidated. \<^verbatim>\<open>setQueryData\<close> stores what the updater returns for the current data
  and leaves the query valid; \<^verbatim>\<open>invalidateQueries\<close> marks the query invalidated and
  asks for its refetch. The client also shows toasts.
\<close>

record query_state =
  data :: "EnhancedChatMessage list option"
  isInvalidated :: bool

record client =
  cache :: "string \<Rightarrow> query_state"
  refetches :: "string list"
  toasts :: "string list"

definition setQueryData ::
  "string \<Rightarrow> (EnhancedChatMessage list option \<Rightarrow> EnhancedChatMessage list) \<Rightarrow> client \<Rightarrow> client" where
  "setQueryData key updater c =
     c\<lparr>cache := (cache c)(key := \<lparr>data = Some (updater (data (cache c key))), isInvalidated = False\<rparr>)\<rparr>"

definition invalidateQueries :: "string \<Rightarrow> client \<Rightarrow> client" where
  "invalidateQueries key c =
     c\<lparr>cache := (cache c)(key := (cache c key)\<lparr>isInvalidated := True\<rparr>),
       refetches := refetches c @ [key]\<rparr>"

text \<open>\<^verbatim>\<open>new Map(booksData?.map(b => [b.id, {title: b.title, type: 'book'}]) || [])\<close>:
  a later entry of a key replaces an earlier one.\<close>

definition makeBookMap :: "(string \<times> js) list option \<Rightarrow> bookMap" where
  "makeBookMap booksData =
     (case booksData of
        None \<Rightarrow> Map.empty
      | Some bs \<Rightarrow> map_of (rev (map (\<lambda>(i, t). (i, Obj [(''title'', t), (''type'', Str ''book'')])) bs)))"

text \<open>The updater of the realtime INSERT handler: \<^verbatim>\<open>oldMessages\<close> defaults to the
  empty array.\<close>

definition mergeNewMessages ::
  "EnhancedChatMessage list \<Rightarrow> EnhancedChatMessage list option \<Rightarrow> EnhancedChatMessage list" where
  "mergeNewMessages newMessages old =
     (let oldMessages = (case old of None \<Rightarrow> [] | Some ms \<Rightarrow> ms);
          existingIds = set (map msg_id oldMessages);
          newMessagesToAdd = filter (\<lambda>msg. msg_id msg \<notin> existingIds) newMessages
      in if length newMessagesToAdd = 0 then oldMessages
         else oldMessages @ newMessagesToAdd)"

text \<open>The realtime INSERT handler of useChatMessages, for the pushed row
  \<^verbatim>\<open>payload.new\<close> and the books the store returns. When the normalizer raises, the
  handler ends there and the cache is not touched.\<close>

definition onChatMessageInserted ::
  "string \<Rightarrow> ChatRow \<Rightarrow> (string \<times> js) list option \<Rightarrow> client \<Rightarrow> error + client" where
  "onChatMessageInserted notebookId payload_new booksData c =
     (case transformDbRowToChatMessages payload_new (makeBookMap booksData) of
        Inl e \<Rightarrow> Inl e
      | Inr newMessages \<Rightarrow> Inr (setQueryData notebookId (mergeNewMessages newMessages) c))"

section \<open>The store of chat rows, the query and the deletion\<close>

text \<open>
  The chat\_messages table is the list of its rows in ascending order of timestamp, so the
  select of one notebook's rows ordered by timestamp is a filter. A request to the store
  can fail: the outcome \<open>Some e\<close> is the error the store reports, and then the table is as
  before.
\<close>

fun flatMapRows :: "bookMap \<Rightarrow> ChatRow list \<Rightarrow> error + EnhancedChatMessage list" where
  "flatMapRows bookMap [] = Inr []"
| "flatMapRows bookMap (item # rest) =
     (case transformDbRowToChatMessages item bookMap of
        Inl e \<Rightarrow> Inl e
      | Inr ms \<Rightarrow> (case flatMapRows bookMap rest of
                    Inl e \<Rightarrow> Inl e
                  | Inr others \<Rightarrow> Inr (ms @ others)))"

text \<open>The queryFn of the chat-messages query.\<close>

definition listChatMessages ::
  "string \<Rightarrow> error option \<Rightarrow> (string \<times> js) list option \<Rightarrow> ChatRow list
     \<Rightarrow> error + EnhancedChatMessage list" where
  "listChatMessages notebookId selectError booksData table =
     (if notebookId = [] then Inr []
      else case selectError of
             Some e \<Rightarrow> Inl e
           | None \<Rightarrow>
               flatMapRows (makeBookMap booksData)
                 (filter (\<lambda>r. notebook_id r = Str notebookId) table))"

record world =
  chat_messages :: "ChatRow list"
  ui :: client

text \<open>The deleteChatHistory mutation: the mutation function, then onSuccess or onError.
  The result is the error the mutation ended with, if any, and the world after it.\<close>

definition deleteChatHistory :: "bool \<Rightarrow> error option \<Rightarrow> string \<Rightarrow> world \<Rightarrow> error option \<times> world" where
  "deleteChatHistory user deleteError notebookId w =
     (case (if \<not> user then Inl (Error ''User not authenticated'')
            else case deleteError of
                   Some e \<Rightarrow> Inl e
                 | None \<Rightarrow>
                     Inr (w\<lparr>chat_messages :=
                              filter (\<lambda>r. notebook_id r \<noteq> Str notebookId) (chat_messages w)\<rparr>)) of
        Inr w' \<Rightarrow>
          (None,
           w'\<lparr>ui := invalidateQueries notebookId
                      (setQueryData notebookId (\<lambda>old. [])
                         ((ui w')\<lparr>toasts := toasts (ui w') @ [''Chat history cleared'']\<rparr>))\<rparr>)
      | Inl e \<Rightarrow> (Some e, w\<lparr>ui := (ui w)\<lparr>toasts := toasts (ui w) @ [''Error'']\<rparr>\<rparr>))"

section \<open>Retrying a failed read\<close>

text \<open>The error a query function ended with, as the retry callback sees it: its message,
  if it has one.\<close>

record thrown =
  thrown_message :: "string option"

text \<open>\<^verbatim>\<open>error?.message?.includes(t)\<close>.\<close>

definition message_includes :: "thrown \<Rightarrow> string \<Rightarrow> bool" where
  "message_includes e t = (case thrown_message e of None \<Rightarrow> False | Some m \<Rightarrow> sublist t m)"

text \<open>The \<^verbatim>\<open>retry\<close> option of the notebooks query.\<close>

definition notebooksRetry :: "nat \<Rightarrow> thrown \<Rightarrow> bool" where
  "notebooksRetry failureCount e =
     (if message_includes e ''JWT'' \<or> message_includes e ''auth'' then False
      else failureCount < 3)"

text \<open>The options of a query that matter here: its own retry policy, if it sets one.\<close>

record query_options =
  retry :: "(nat \<Rightarrow> thrown \<Rightarrow> bool) option"

definition notebooksQuery :: query_options where
  "notebooksQuery = \<lparr>retry = Some notebooksRetry\<rparr>"

definition chatMessagesQuery :: query_options where
  "chatMessagesQuery = \<lparr>retry = None\<rparr>"

text \<open>A query without a retry option follows the default of the query client. The client
  is made outside these files; the default of the library is three retries, whatever the
  error.\<close>

definition libraryDefaultRetry :: "nat \<Rightarrow> thrown \<Rightarrow> bool" where
  "libraryDefaultRetry failureCount e = (failureCount < 3)"

definition effectiveRetry :: "(nat \<Rightarrow> thrown \<Rightarrow> bool) \<Rightarrow> query_options \<Rightarrow> nat \<Rightarrow> thrown \<Rightarrow> bool" where
  "effectiveRetry clientDefault opts = (case retry opts of None \<Rightarrow> clientDefault | Some f \<Rightarrow> f)"

text \<open>How many times a read is retried when its successive attempts fail with the given
  errors (the read succeeds after the last of them): the policy is asked after each
  failure, with the number of failures before it.\<close>

fun retries :: "(nat \<Rightarrow> thrown \<Rightarrow> bool) \<Rightarrow> nat \<Rightarrow> thrown list \<Rightarrow> nat" where
  "retries policy failureCount [] = 0"
| "retries policy failureCount (e # es) =
     (if policy failureCount e then Suc (retries policy (Suc failureCount) es) else 0)"

section \<open>The HTTP handlers\<close>

text \<open>
  A request is its method and what \<^verbatim>\<open>await req.json()\<close> gives: the decoded body, or the
  error it raises. A response is made by \<^verbatim>\<open>new Response(body, init)\<close>; without a
  \<^verbatim>\<open>status\<close> in \<^verbatim>\<open>init\<close> its status is 200. The body of a response is kept as the
  object that is serialized.
\<close>

record Request =
  req_method :: string
  req_json :: "error + js"

text \<open>The text of \<^verbatim>\<open>error.message\<close>: the message given to \<^verbatim>\<open>new Error\<close> or
  reported by a collaborator, or the text the engine gives its own TypeError or
  SyntaxError, which is not empty and is not spelled out here.\<close>

datatype message_text =
    Given string
  | Engine error

text \<open>\<^verbatim>\<open>error.message || fallback\<close>.\<close>

fun message_or :: "error \<Rightarrow> string \<Rightarrow> message_text" where
  "message_or (Error m) fallback = Given (if m = [] then fallback else m)"
| "message_or e fallback = Engine e"

record NotebookRow =
  nb_id :: js
  nb_name :: js
  nb_user_id :: js
  nb_selected_books :: "string list"
  nb_selected_genres :: "string list"
  nb_memory_summary :: string
  nb_key_facts :: "js list"

datatype body =
    NoBody
  | ErrorPayload message_text
  | ChatSuccess ChatRow js
  | NotebookSuccess NotebookRow js

record Response =
  status :: nat
  headers :: "(string \<times> string) list"
  body :: body

definition new_Response :: "body \<Rightarrow> nat option \<Rightarrow> (string \<times> string) list \<Rightarrow> Response" where
  "new_Response b init_status init_headers =
     \<lparr>status = (case init_status of None \<Rightarrow> 200 | Some st \<Rightarrow> st),
      headers = init_headers, body = b\<rparr>"

definition corsHeaders :: "(string \<times> string) list" where
  "corsHeaders =
     [(''Access-Control-Allow-Origin'', ''*''),
      (''Access-Control-Allow-Headers'', ''authorization, x-client-info, apikey, content-type'')]"

definition jsonHeaders :: "(string \<times> string) list" where
  "jsonHeaders = corsHeaders @ [(''Content-Type'', ''application/json'')]"

text \<open>The answer of the external backend to a \<^verbatim>\<open>fetch\<close>: \<^verbatim>\<open>ok\<close>, the status, and
  what \<^verbatim>\<open>await response.json()\<close> and \<^verbatim>\<open>await response.text()\<close> give.\<close>

record BackendResponse =
  ok :: bool
  backend_status :: nat
  backend_json :: "error + js"
  backend_text :: "error + string"

subsection \<open>send-chat-message\<close>

record NotebookSel =
  selected_books :: "string list option"
  selected_genres :: "string list option"
  user_id :: string

text \<open>
  The collaborators of the handler: the notebook row with the given id (or the message of
  the store's error), the ids of the books of the given genres (or an error message), the
  answer of the chat backend to the posted object (or the error \<^verbatim>\<open>fetch\<close> raises), the
  message of the error of the insert if it fails, and the id the store gives the new row.
\<close>

record chat_env =
  notebook_single :: "js \<Rightarrow> string + NotebookSel"
  books_in_genres :: "string list \<Rightarrow> string + string list"
  fetch_chat :: "js \<Rightarrow> error + BackendResponse"
  chat_insert_error :: "string option"
  chat_generated_id :: js

text \<open>\<^verbatim>\<open>[...new Set(xs)]\<close>: the first occurrence of each element, in order.\<close>

definition unique :: "'a list \<Rightarrow> 'a list" where
  "unique xs = fold (\<lambda>x acc. if x \<in> set acc then acc else acc @ [x]) xs []"

text \<open>The book ids the handler collects from the notebook. It logs them; neither the
  request to the backend nor the response uses them.\<close>

definition allBookIds :: "chat_env \<Rightarrow> NotebookSel \<Rightarrow> string list" where
  "allBookIds env notebook =
     (let selected = (case selected_books notebook of None \<Rightarrow> [] | Some bs \<Rightarrow> bs)
      in case selected_genres notebook of
           None \<Rightarrow> selected
         | Some gs \<Rightarrow>
             if length gs > 0 then
               (case books_in_genres env gs of
                  Inl e \<Rightarrow> selected
                | Inr genreBookIds \<Rightarrow> unique (selected @ genreBookIds))
             else selected)"

text \<open>The insert into chat\_messages: on an error nothing is written; otherwise the row
  is stored with its new id, after the rows already there, and returned.\<close>

definition insert_chat_message ::
  "chat_env \<Rightarrow> ChatRow \<Rightarrow> ChatRow list \<Rightarrow> string + ChatRow \<times> ChatRow list" where
  "insert_chat_message env values table =
     (case chat_insert_error env of
        Some m \<Rightarrow> Inl m
      | None \<Rightarrow> (let row = values\<lparr>row_id := chat_generated_id env\<rparr> in Inr (row, table @ [row])))"

text \<open>The \<^verbatim>\<open>try\<close> block of the handler.\<close>

definition sendChatMessage_try ::
  "chat_env \<Rightarrow> Request \<Rightarrow> ChatRow list \<Rightarrow> error + Response \<times> ChatRow list" where
  "sendChatMessage_try env req table =
     (case req_json req of
        Inl e \<Rightarrow> Inl e
      | Inr b \<Rightarrow>
          if nullish b then Inl TypeError
          else
            let notebookId = get b ''notebookId''; message = get b ''message''
            in if \<not> truthy notebookId \<or> \<not> truthy message then
                 Inl (Error ''notebookId and message are required'')
               else
                 (case notebook_single env notebookId of
                    Inl m \<Rightarrow> Inl (Error (''Failed to fetch notebook: '' @ m))
                  | Inr notebook \<Rightarrow>
                      let bookIds = allBookIds env notebook
                      in (case fetch_chat env
                                (Obj [(''message'', message), (''notebook_id'', notebookId),
                                      (''user_id'', Str (user_id notebook))]) of
                           Inl e \<Rightarrow> Inl e
                         | Inr backendResponse \<Rightarrow>
                             if \<not> ok backendResponse then
                               (case backend_text backendResponse of
                                  Inl e \<Rightarrow> Inl e
                                | Inr errorText \<Rightarrow>
                                    Inl (Error (''Backend API error: ''
                                                @ decimal (backend_status backendResponse))))
                             else
                               (case backend_json backendResponse of
                                  Inl e \<Rightarrow> Inl e
                                | Inr backendData \<Rightarrow>
                                    if nullish backendData then Inl TypeError
                                    else
                                      (case insert_chat_message env
                                              \<lparr>row_id = Undefined,
                                               notebook_id = notebookId,
                                               user_message = message,
                                               assistant_response =
                                                 js_or (js_or (get backendData ''response'')
                                                              (get backendData ''message''))
                                                       (Str ''No response''),
                                               row_citations =
                                                 js_or (get backendData ''citations'') Null\<rparr>
                                              table of
                                         Inl m \<Rightarrow> Inl (Error (''Failed to save chat message: '' @ m))
                                       | Inr (chatMessage, table') \<Rightarrow>
                                           Inr (new_Response (ChatSuccess chatMessage backendData)
                                                  None jsonHeaders,
                                                table'))))))"

text \<open>The handler: the response and the chat\_messages table after the request.\<close>

definition sendChatMessage :: "chat_env \<Rightarrow> Request \<Rightarrow> ChatRow list \<Rightarrow> Response \<times> ChatRow list" where
  "sendChatMessage env req table =
     (if req_method req = ''OPTIONS'' then (new_Response NoBody None corsHeaders, table)
      else case sendChatMessage_try env req table of
             Inr r \<Rightarrow> r
           | Inl e \<Rightarrow>
               (new_Response (ErrorPayload (message_or e ''Failed to process chat message''))
                  (Some 500) jsonHeaders,
                table))"

subsection \<open>create-notebook\<close>

text \<open>The collaborators: the answer of the notebooks backend for the user id and the
  posted object, the message of the error of the insert if it fails, and the id the store
  gives the new notebook.\<close>

record notebook_env =
  fetch_notebooks :: "js \<Rightarrow> js \<Rightarrow> error + BackendResponse"
  notebook_insert_error :: "string option"
  notebook_generated_id :: js

definition insert_notebook ::
  "notebook_env \<Rightarrow> NotebookRow \<Rightarrow> NotebookRow list \<Rightarrow> string + NotebookRow \<times> NotebookRow list" where
  "insert_notebook env values table =
     (case notebook_insert_error env of
        Some m \<Rightarrow> Inl m
      | None \<Rightarrow> (let row = values\<lparr>nb_id := notebook_generated_id env\<rparr> in Inr (row, table @ [row])))"

definition new_notebook :: "js \<Rightarrow> js \<Rightarrow> NotebookRow" where
  "new_notebook name uid =
     \<lparr>nb_id = Undefined, nb_name = name, nb_user_id = uid, nb_selected_books = [],
      nb_selected_genres = [], nb_memory_summary = [], nb_key_facts = []\<rparr>"

definition notebook_request_body :: "js \<Rightarrow> js" where
  "notebook_request_body name =
     Obj [(''name'', name), (''selected_books'', Arr []), (''selected_genres'', Arr [])]"

text \<open>The version that calls the backend first and inserts the notebook only after the
  backend answered.\<close>

definition createNotebookBackendFirst_try ::
  "notebook_env \<Rightarrow> Request \<Rightarrow> NotebookRow list \<Rightarrow> error + Response \<times> NotebookRow list" where
  "createNotebookBackendFirst_try env req table =
     (case req_json req of
        Inl e \<Rightarrow> Inl e
      | Inr b \<Rightarrow>
          if nullish b then Inl TypeError
          else
            let name = get b ''name''; uid = get b ''user_id''
            in if \<not> truthy name \<or> \<not> truthy uid then Inl (Error ''name and user_id are required'')
               else
                 (case fetch_notebooks env uid (notebook_request_body name) of
                    Inl e \<Rightarrow> Inl e
                  | Inr backendResponse \<Rightarrow>
                      if \<not> ok backendResponse then
                        (case backend_text backendResponse of
                           Inl e \<Rightarrow> Inl e
                         | Inr errorText \<Rightarrow>
                             Inl (Error (''Backend API error: ''
                                         @ decimal (backend_status backendResponse))))
                      else
                        (case backend_json backendResponse of
                           Inl e \<Rightarrow> Inl e
                         | Inr backendData \<Rightarrow>
                             (case insert_notebook env (new_notebook name uid) table of
                                Inl m \<Rightarrow> Inl (Error (''Failed to create notebook: '' @ m))
                              | Inr (notebook, table') \<Rightarrow>
                                  Inr (new_Response (NotebookSuccess notebook backendData)
                                         None jsonHeaders,
                                       table')))))"

definition createNotebookBackendFirst ::
  "notebook_env \<Rightarrow> Request \<Rightarrow> NotebookRow list \<Rightarrow> Response \<times> NotebookRow list" where
  "createNotebookBackendFirst env req table =
     (if req_method req = ''OPTIONS'' then (new_Response NoBody None corsHeaders, table)
      else case createNotebookBackendFirst_try env req table of
             Inr r \<Rightarrow> r
           | Inl e \<Rightarrow>
               (new_Response (ErrorPayload (message_or e ''Failed to create notebook''))
                  (Some 500) jsonHeaders,
                table))"

text \<open>The version that inserts the notebook first and then calls the backend without
  failing on it: \<^verbatim>\<open>backend_response\<close> is \<^verbatim>\<open>null\<close> unless the backend answered
  with a body that decodes.\<close>

definition createNotebookStoreFirst_try ::
  "notebook_env \<Rightarrow> Request \<Rightarrow> NotebookRow list \<Rightarrow> error + Response \<times> NotebookRow list" where
  "createNotebookStoreFirst_try env req table =
     (case req_json req of
        Inl e \<Rightarrow> Inl e
      | Inr b \<Rightarrow>
          if nullish b then Inl TypeError
          else
            let name = get b ''name''; uid = get b ''user_id''
            in if \<not> truthy name \<or> \<not> truthy uid then Inl (Error ''name and user_id are required'')
               else
                 (case insert_notebook env (new_notebook name uid) table of
                    Inl m \<Rightarrow> Inl (Error (''Failed to create notebook: '' @ m))
                  | Inr (notebook, table') \<Rightarrow>
                      let backendData =
                            (case fetch_notebooks env uid (notebook_request_body name) of
                               Inl e \<Rightarrow> Null
                             | Inr backendResponse \<Rightarrow>
                                 if ok backendResponse then
                                   (case backend_json backendResponse of
                                      Inl e \<Rightarrow> Null
                                    | Inr d \<Rightarrow> d)
                                 else Null)
                      in Inr (new_Response (NotebookSuccess notebook backendData) None jsonHeaders,
                              table')))"

definition createNotebookStoreFirst ::
  "notebook_env \<Rightarrow> Request \<Rightarrow> NotebookRow list \<Rightarrow> Response \<times> NotebookRow list" where
  "createNotebookStoreFirst env req table =
     (if req_method req = ''OPTIONS'' then (new_Response NoBody None corsHeaders, table)
      else case createNotebookStoreFirst_try env req table of
             Inr r \<Rightarrow> r
           | Inl e \<Rightarrow>
               (new_Response (ErrorPayload (message_or e ''Failed to create notebook''))
                  (Some 500) jsonHeaders,
                table))"

section \<open>Notions used in the statements\<close>

text \<open>How many citations the inner loop pushes for an output item.\<close>

definition citation_count :: "platform \<Rightarrow> js \<Rightarrow> nat" where
  "citation_count pf outputItem =
     (if has_citations pf outputItem then
        (case get outputItem ''citations'' of Arr cs \<Rightarrow> length cs | _ \<Rightarrow> 0)
      else 0)"

text \<open>The value of \<^verbatim>\<open>citationIdCounter\<close> when each output item is reached, from its
  value at the first.\<close>

fun counters :: "platform \<Rightarrow> nat \<Rightarrow> js list \<Rightarrow> nat list" where
  "counters pf n [] = []"
| "counters pf n (outputItem # rest) =
     n # counters pf (if has_citations pf outputItem then Suc n else n) rest"

text \<open>The segment pushed for an output item reached with the counter at \<open>k\<close>.\<close>

definition expected_segment :: "platform \<Rightarrow> js \<Rightarrow> nat \<Rightarrow> MessageSegment" where
  "expected_segment pf outputItem k =
     \<lparr>seg_text = get outputItem ''text'',
      seg_citation_id = (if has_citations pf outputItem then Some k else None)\<rparr>"

fun structured_citations :: "content \<Rightarrow> Citation list" where
  "structured_citations (Structured segments citations) = citations"
| "structured_citations (Raw v) = []"

text \<open>An error whose message indicates an authentication failure, as the notebooks query
  reads it.\<close>

definition auth_failure :: "thrown \<Rightarrow> bool" where
  "auth_failure e = (message_includes e ''JWT'' \<or> message_includes e ''auth'')"

section \<open>Example inputs\<close>

definition row_r1 :: ChatRow where
  "row_r1 = \<lparr>row_id = Str ''r1'', notebook_id = Str ''n1'', user_message = Str ''Hi'',
             assistant_response = Str '''', row_citations = Null\<rparr>"

definition row_r2 :: ChatRow where
  "row_r2 = \<lparr>row_id = Str ''r2'', notebook_id = Str ''n1'', user_message = Str ''Q'',
             assistant_response = Str ''A'',
             row_citations = Arr [Obj [(''source_id'', Str ''b1''), (''source_title'', Str ''Book''),
                                       (''chunk_lines_from'', Num 1), (''chunk_lines_to'', Num 3)],
                                  Obj [(''source_id'', Str ''b2'')]]\<rparr>"

definition no_books :: bookMap where
  "no_books = Map.empty"

text \<open>A legacy message whose content is the JSON text of three output items, the first
  with two citations, the second with none, the third with one; and a platform whose
  \<^verbatim>\<open>JSON.parse\<close> decodes that text and rejects any other.\<close>

definition demo_text :: string where
  \<open>demo_text = ''{"output":[{"text":"a","citations":[{"chunk_source_id":"b1","chunk_lines_from":1,"chunk_lines_to":3},{"chunk_source_id":"b2","chunk_lines_from":4,"chunk_lines_to":9}]},{"text":"b"},{"text":"c","citations":[{"chunk_source_id":"b1","chunk_lines_from":10,"chunk_lines_to":12}]}]}''\<close>

definition demo_output :: "js list" where
  "demo_output =
     [Obj [(''text'', Str ''a''),
           (''citations'',
            Arr [Obj [(''chunk_source_id'', Str ''b1''), (''chunk_lines_from'', Num 1),
                      (''chunk_lines_to'', Num 3)],
                 Obj [(''chunk_source_id'', Str ''b2''), (''chunk_lines_from'', Num 4),
                      (''chunk_lines_to'', Num 9)]])],
      Obj [(''text'', Str ''b'')],
      Obj [(''text'', Str ''c''),
           (''citations'',
            Arr [Obj [(''chunk_source_id'', Str ''b1''), (''chunk_lines_from'', Num 10),
                      (''chunk_lines_to'', Num 12)]])]]"

definition demo_platform :: platform where
  "demo_platform =
     \<lparr>JSON_parse = (\<lambda>s. if s = demo_text then Inr (Obj [(''output'', Arr demo_output)])
                         else Inl SyntaxError),
      string_gt_zero = (\<lambda>s. s \<noteq> [] \<and> list_all (\<lambda>c. c \<in> set ''0123456789'') s
                             \<and> \<not> list_all (\<lambda>c. c = CHR ''0'') s)\<rparr>"

definition demo_legacy :: LegacyItem where
  "demo_legacy =
     \<lparr>leg_id = Num 7, leg_session_id = Str ''n1'',
      leg_message = Obj [(''type'', Str ''ai''), (''content'', Str demo_text)]\<rparr>"

text \<open>A legacy message whose content is not JSON, and an item whose message has no
  recognized shape.\<close>

definition demo_plain :: LegacyItem where
  "demo_plain =
     \<lparr>leg_id = Num 8, leg_session_id = Str ''n1'',
      leg_message = Obj [(''type'', Str ''ai''), (''content'', Str ''hello'')]\<rparr>"

definition demo_unrecognized :: LegacyItem where
  "demo_unrecognized = \<lparr>leg_id = Num 9, leg_session_id = Str ''n1'', leg_message = Num 5\<rparr>"

text \<open>A client that has fetched nothing yet.\<close>

definition empty_client :: client where
  "empty_client = \<lparr>cache = (\<lambda>key. \<lparr>data = None, isInvalidated = False\<rparr>), refetches = [], toasts = []\<rparr>"

definition row_other :: ChatRow where
  "row_other = \<lparr>row_id = Str ''r3'', notebook_id = Str ''n2'', user_message = Str ''Other'',
               assistant_response = Str '''', row_citations = Null\<rparr>"

text \<open>A world with two rows of notebook n1 and one of n2, and stale data of n1 in the
  cache.\<close>

definition world0 :: world where
  "world0 =
     \<lparr>chat_messages = [row_r1, row_r2, row_other],
      ui = \<lparr>cache = (\<lambda>key. \<lparr>data = (if key = ''n1''
                                     then Some [\<lparr>msg_id = Str ''r1-user'', session_id = Str ''n1'',
                                                 message = plain_message human (Raw (Str ''Hi''))\<rparr>]
                                     else None),
                             isInvalidated = False\<rparr>),
            refetches = [], toasts = []\<rparr>\<rparr>"

text \<open>Two errors of a read: an expired session and a network failure.\<close>

definition jwt_expired :: thrown where
  "jwt_expired = \<lparr>thrown_message = Some ''JWT expired''\<rparr>"

definition network_down :: thrown where
  "network_down = \<lparr>thrown_message = Some ''Failed to fetch''\<rparr>"

text \<open>Collaborators of the handlers: the notebook n1 exists and no other, and the backend
  answers 503.\<close>

definition demo_chat_env :: chat_env where
  "demo_chat_env =
     \<lparr>notebook_single =
        (\<lambda>i. if i = Str ''n1''
              then Inr \<lparr>selected_books = Some [''b1''], selected_genres = Some [''science''],
                        user_id = ''u1''\<rparr>
              else Inl ''no rows returned''),
      books_in_genres = (\<lambda>gs. Inr [''b1'', ''b2'']),
      fetch_chat = (\<lambda>posted. Inr \<lparr>ok = False, backend_status = 503,
                                    backend_json = Inl SyntaxError,
                                    backend_text = Inr ''Service Unavailable''\<rparr>),
      chat_insert_error = None,
      chat_generated_id = Str ''r9''\<rparr>"

definition demo_notebook_env :: notebook_env where
  "demo_notebook_env =
     \<lparr>fetch_notebooks = (\<lambda>uid posted. Inr \<lparr>ok = False, backend_status = 503,
                                             backend_json = Inl SyntaxError,
                                    backend_text = Inr ''Service Unavailable''\<rparr>),
      notebook_insert_error = None,
      notebook_generated_id = Str ''n9''\<rparr>"

definition options_request :: Request where
  "options_request = \<lparr>req_method = ''OPTIONS'', req_json = Inl SyntaxError\<rparr>"

definition chat_request :: "string \<Rightarrow> Request" where
  "chat_request notebookId =
     \<lparr>req_method = ''POST'',
      req_json = Inr (Obj [(''notebookId'', Str notebookId), (''message'', Str ''Hello'')])\<rparr>"

section \<open>Properties\<close>

subsection \<open>The citations of a row\<close>


lemma mapCitations_length:
  "mapCitations cs i = Inr cits \<Longrightarrow> length cits = length cs"
  by (induction cs arbitrary: i cits) (auto split: sum.splits)

lemma mapCitations_nth:
  "mapCitations cs i = Inr cits \<Longrightarrow> j < length cs \<Longrightarrow>
   transformCitation (cs ! j) (i + j) = Inr (cits ! j)"
proof (induction cs arbitrary: i cits j)
  case Nil
  then show ?case by simp
next
  case (Cons c cs)
  from Cons.prems(1) obtain t ts where
    t: "transformCitation c i = Inr t" and ts: "mapCitations cs (Suc i) = Inr ts" and
    eq: "cits = t # ts"
    by (auto split: sum.splits)
  show ?case
  proof (cases j)
    case 0
    then show ?thesis using t eq by simp
  next
    case (Suc k)
    then show ?thesis using Cons.IH [OF ts, of k] Cons.prems(2) eq by simp
  qed
qed

lemma mapCitations_null:
  "c \<in> set cs \<Longrightarrow> nullish c \<Longrightarrow> mapCitations cs i = Inl TypeError"
  by (induction cs arbitrary: i) (auto simp: transformCitation_def split: sum.splits)


text \<open>A \<^verbatim>\<open>null\<close> among the citations of a row makes the normalizer raise.\<close>

lemma transformDbRow_null_citation:
  assumes "truthy (assistant_response item)"
    and "row_citations item = Arr cs"
    and "c \<in> set cs"
    and "nullish c"
  shows "transformDbRowToChatMessages item bookMap = Inl TypeError"
proof -
  from assms(3) have "cs \<noteq> []" by auto
  with assms(1,2) mapCitations_null [OF assms(3,4), of 0] show ?thesis
    by (simp add: transformDbRowToChatMessages_def)
qed

subsection \<open>Rows without an assistant response\<close>

text \<open>
  Claim C1, as amended. For every row whose \<^verbatim>\<open>assistant_response\<close> is empty or absent
  (any falsy value), transformDbRowToChatMessages returns exactly one message, the human
  message with id \<^verbatim>\<open><rowId>-user\<close>. transformChatMessage, the normalizer of the other
  version of the hook, returns two messages for the same row: the human message and an
  assistant message whose content is the placeholder \<^verbatim>\<open>No response yet\<close>.
\<close>

theorem C1_no_assistant_message:
  assumes "\<not> truthy (assistant_response item)"
  shows "transformDbRowToChatMessages item bookMap =
           Inr [\<lparr>msg_id = Str (to_string (row_id item) @ ''-user''),
                 session_id = notebook_id item,
                 message = plain_message human (Raw (user_message item))\<rparr>]
         \<and> transformChatMessage item bookMap =
             [\<lparr>msg_id = Str (to_string (row_id item) @ ''-user''),
               session_id = notebook_id item,
               message = plain_message human (Raw (user_message item))\<rparr>,
              \<lparr>msg_id = Str (to_string (row_id item) @ ''-assistant''),
               session_id = notebook_id item,
               message = plain_message ai (Raw (Str ''No response yet''))\<rparr>]"
  using assms by (simp add: transformDbRowToChatMessages_def transformChatMessage_def js_or_def)

text \<open>The theorem at the row \<^verbatim>\<open>{id: "r1", user_message: "Hi", assistant_response: "",
  citations: null}\<close>.\<close>

theorem C1_no_assistant_message_witness:
  "\<not> truthy (assistant_response row_r1)
   \<and> transformDbRowToChatMessages row_r1 no_books =
       Inr [\<lparr>msg_id = Str ''r1-user'', session_id = Str ''n1'',
             message = plain_message human (Raw (Str ''Hi''))\<rparr>]
   \<and> length (transformChatMessage row_r1 no_books) = 2"
proof -
  have h: "\<not> truthy (assistant_response row_r1)" by (simp add: row_r1_def)
  show ?thesis using h C1_no_assistant_message [OF h, of no_books]
    by (simp add: row_r1_def)
qed

text \<open>Claim C1 as stated fails on transformChatMessage: the row r1 has an empty response,
  and the result has two messages, the second an assistant message.\<close>

theorem C1_transformChatMessage_counterexample:
  "\<not> truthy (assistant_response row_r1)
   \<and> length (transformChatMessage row_r1 no_books) = 2
   \<and> msg_id (transformChatMessage row_r1 no_books ! 1) = Str ''r1-assistant''
   \<and> content (message (transformChatMessage row_r1 no_books ! 1)) = Raw (Str ''No response yet'')"
  by (simp add: row_r1_def transformChatMessage_def js_or_def plain_message_def)

subsection \<open>Rows with citations\<close>



subsection \<open>The legacy encoding: segments and citation ids\<close>

lemma length_counters: "length (counters pf n os) = length os"
  by (induction os arbitrary: n) simp_all

lemma counters_nth:
  "i < length os \<Longrightarrow>
   counters pf n os ! i = n + length (filter (has_citations pf) (take i os))"
proof (induction os arbitrary: n i)
  case Nil
  then show ?case by simp
next
  case (Cons a os)
  show ?case
  proof (cases i)
    case 0
    then show ?thesis by simp
  next
    case (Suc k)
    with Cons.prems have "k < length os" by simp
    from Cons.IH [OF this] Suc show ?thesis by simp
  qed
qed

lemma pushCitations_ids:
  "pushCitations sm k cs acc = Inr r \<Longrightarrow>
   map citation_id r = map citation_id acc @ replicate (length cs) k"
proof (induction cs arbitrary: acc)
  case Nil
  then show ?case by simp
next
  case (Cons c cs)
  from Cons.prems obtain t where
    t: "legacyCitation sm k c = Inr t" and r: "pushCitations sm k cs (acc @ [t]) = Inr r"
    by (auto split: sum.splits)
  from t have "citation_id t = k"
    by (auto simp: legacyCitation_def Let_def split: if_splits)
  with Cons.IH [OF r] show ?case by (simp add: replicate_app_Cons_same)
qed

lemma pushCitations_ok:
  "\<forall>c\<in>set cs. \<not> nullish c \<Longrightarrow> \<exists>r. pushCitations sm k cs acc = Inr r"
proof (induction cs arbitrary: acc)
  case Nil
  then show ?case by simp
next
  case (Cons c cs)
  then obtain t where "legacyCitation sm k c = Inr t"
    by (simp add: legacyCitation_def Let_def)
  with Cons show ?case by simp
qed

lemma processOutputItem_result:
  assumes "processOutputItem pf sm outputItem (s0, c0, n0) = Inr (s, c, n)"
  shows "s = s0 @ [expected_segment pf outputItem n0]"
    and "map citation_id c = map citation_id c0 @ replicate (citation_count pf outputItem) n0"
    and "n = (if has_citations pf outputItem then Suc n0 else n0)"
  using assms
  by (auto simp: processOutputItem_def Let_def citation_count_def expected_segment_def
      split: if_splits js.splits sum.splits dest: pushCitations_ids)

lemma forEachOutput_result:
  "forEachOutput pf sm out (s0, c0, n0) = Inr (s, c, n) \<Longrightarrow>
   s = s0 @ map (\<lambda>(outputItem, k). expected_segment pf outputItem k) (zip out (counters pf n0 out))
   \<and> map citation_id c =
       map citation_id c0 @
       concat (map (\<lambda>(outputItem, k). replicate (citation_count pf outputItem) k)
                 (zip out (counters pf n0 out)))
   \<and> n = n0 + length (filter (has_citations pf) out)"
proof (induction out arbitrary: s0 c0 n0)
  case Nil
  then show ?case by simp
next
  case (Cons a out)
  from Cons.prems obtain s1 c1 n1 where
    step: "processOutputItem pf sm a (s0, c0, n0) = Inr (s1, c1, n1)" and
    rest: "forEachOutput pf sm out (s1, c1, n1) = Inr (s, c, n)"
    by (auto split: sum.splits)
  note p = processOutputItem_result [OF step]
  from Cons.IH [OF rest] p show ?case by simp
qed

lemma forEachOutput_ok:
  "\<forall>outputItem\<in>set out. \<not> nullish outputItem \<and>
      (has_citations pf outputItem \<longrightarrow>
         (\<exists>cs. get outputItem ''citations'' = Arr cs \<and> (\<forall>c\<in>set cs. \<not> nullish c))) \<Longrightarrow>
   \<exists>r. forEachOutput pf sm out st = Inr r"
proof (induction out arbitrary: st)
  case Nil
  show ?case by (intro exI [of _ st]) simp
next
  case (Cons a out)
  obtain s0 c0 n0 where st: "st = (s0, c0, n0)" by (cases st) auto
  from Cons.prems have a: "\<not> nullish a"
    and ac: "has_citations pf a \<longrightarrow>
         (\<exists>cs. get a ''citations'' = Arr cs \<and> (\<forall>c\<in>set cs. \<not> nullish c))"
    and tl: "\<forall>outputItem\<in>set out. \<not> nullish outputItem \<and>
      (has_citations pf outputItem \<longrightarrow>
         (\<exists>cs. get outputItem ''citations'' = Arr cs \<and> (\<forall>c\<in>set cs. \<not> nullish c)))"
    by simp_all
  have "\<exists>st'. processOutputItem pf sm a st = Inr st'"
  proof (cases "has_citations pf a")
    case True
    with ac obtain cs where cs: "get a ''citations'' = Arr cs" "\<forall>c\<in>set cs. \<not> nullish c" by blast
    from pushCitations_ok [OF cs(2), of sm n0 c0] obtain r where
      "pushCitations sm n0 cs c0 = Inr r" by blast
    with True a cs(1) st show ?thesis by (simp add: processOutputItem_def Let_def)
  next
    case False
    with a st show ?thesis by (simp add: processOutputItem_def Let_def)
  qed
  then obtain st' where "processOutputItem pf sm a st = Inr st'" by blast
  with Cons.IH [OF tl, of st'] show ?case by simp
qed

lemma zip_counters_index:
  "map f (zip out (counters pf n out)) =
   map (\<lambda>i. f (out ! i, n + length (filter (has_citations pf) (take i out)))) [0..<length out]"
  by (rule nth_equalityI) (simp_all add: length_counters counters_nth)

lemma transformMessage_parsed:
  assumes "is_legacy_object (leg_message item)"
    and "get (leg_message item) ''type'' = Str ''ai''"
    and "get (leg_message item) ''content'' = Str s"
  shows "transformMessage pf item sm =
           Inr \<lparr>msg_id = leg_id item, session_id = leg_session_id item,
                message = (case parseAiContent pf sm (leg_message item) of
                             Inl e \<Rightarrow> kept_message (leg_message item) ai (Raw (Str s))
                           | Inr m \<Rightarrow> m)\<rparr>"
  using assms by (simp add: transformMessage_def try_catch_def Let_def split: sum.splits)

lemma parseAiContent_array:
  assumes "get messageObj ''content'' = Str s"
    and "JSON_parse pf s = Inr parsed"
    and "read_prop parsed ''output'' = Inr (Arr out)"
  shows "parseAiContent pf sm messageObj =
           (case forEachOutput pf sm out ([], [], 1) of
              Inl e \<Rightarrow> Inl e
            | Inr (segments, citations, counter) \<Rightarrow>
                Inr (kept_message messageObj ai (Structured segments citations)))"
  using assms by (simp add: parseAiContent_def)

text \<open>
  Claim C3. When the content of an AI message is a string that \<^verbatim>\<open>JSON.parse\<close> decodes
  to an object whose \<^verbatim>\<open>output\<close> is an array of output items (objects whose citations,
  if any, are an array of objects), transformMessage returns structured content with exactly
  one segment per output item, in order. The segment of an item that carries at least one
  citation is tagged with one more than the number of earlier items that carry citations,
  the segment of an item without citations has no citation id, and every citation of an
  item has the citation id of the item's segment: the counter moves once per citing item,
  not once per citation.
\<close>

theorem C3_legacy_output_items:
  assumes "is_legacy_object (leg_message item)"
    and "get (leg_message item) ''type'' = Str ''ai''"
    and "get (leg_message item) ''content'' = Str s"
    and "JSON_parse pf s = Inr parsed"
    and "read_prop parsed ''output'' = Inr (Arr out)"
    and "\<forall>outputItem\<in>set out. \<not> nullish outputItem \<and>
           (has_citations pf outputItem \<longrightarrow>
              (\<exists>cs. get outputItem ''citations'' = Arr cs \<and> (\<forall>c\<in>set cs. \<not> nullish c)))"
  shows "\<exists>segs cits.
           transformMessage pf item sourceMap =
             Inr \<lparr>msg_id = leg_id item, session_id = leg_session_id item,
                  message = kept_message (leg_message item) ai (Structured segs cits)\<rparr>
           \<and> length segs = length out
           \<and> (\<forall>i<length out.
                 seg_text (segs ! i) = get (out ! i) ''text'' \<and>
                 seg_citation_id (segs ! i) =
                   (if has_citations pf (out ! i)
                    then Some (1 + length (filter (has_citations pf) (take i out)))
                    else None))
           \<and> map citation_id cits =
               concat (map (\<lambda>i. replicate (citation_count pf (out ! i))
                                  (1 + length (filter (has_citations pf) (take i out))))
                         [0..<length out])"
proof -
  from forEachOutput_ok [OF assms(6), of sourceMap "([], [], 1)"] obtain segs cits n where
    run: "forEachOutput pf sourceMap out ([], [], 1) = Inr (segs, cits, n)"
    by (metis prod_cases3)
  from forEachOutput_result [OF run] have
    segs: "segs = map (\<lambda>(outputItem, k). expected_segment pf outputItem k)
                    (zip out (counters pf 1 out))" and
    ids: "map citation_id cits =
            concat (map (\<lambda>(outputItem, k). replicate (citation_count pf outputItem) k)
                      (zip out (counters pf 1 out)))"
    by simp_all
  have segs': "segs = map (\<lambda>i. expected_segment pf (out ! i)
                           (1 + length (filter (has_citations pf) (take i out)))) [0..<length out]"
    unfolding segs by (simp add: zip_counters_index)
  have ids': "map citation_id cits =
               concat (map (\<lambda>i. replicate (citation_count pf (out ! i))
                                  (1 + length (filter (has_citations pf) (take i out))))
                         [0..<length out])"
    unfolding ids by (simp add: zip_counters_index)
  have len: "length segs = length out" unfolding segs' by simp
  have nth: "\<forall>i<length out.
                 seg_text (segs ! i) = get (out ! i) ''text'' \<and>
                 seg_citation_id (segs ! i) =
                   (if has_citations pf (out ! i)
                    then Some (1 + length (filter (has_citations pf) (take i out)))
                    else None)"
    unfolding segs' by (simp add: expected_segment_def)
  from run have run': "forEachOutput pf sourceMap out ([], [], Suc 0) = Inr (segs, cits, n)"
    by simp
  have res: "transformMessage pf item sourceMap =
             Inr \<lparr>msg_id = leg_id item, session_id = leg_session_id item,
                  message = kept_message (leg_message item) ai (Structured segs cits)\<rparr>"
    by (simp add: transformMessage_parsed [OF assms(1,2,3)]
        parseAiContent_array [OF assms(3,4,5)] run')
  from res len nth ids' show ?thesis by blast
qed

text \<open>The theorem at the example message: three segments, and the citation ids 1, 1, 2.\<close>

theorem C3_legacy_output_items_witness:
  "is_legacy_object (leg_message demo_legacy)
   \<and> get (leg_message demo_legacy) ''type'' = Str ''ai''
   \<and> get (leg_message demo_legacy) ''content'' = Str demo_text
   \<and> JSON_parse demo_platform demo_text = Inr (Obj [(''output'', Arr demo_output)])
   \<and> read_prop (Obj [(''output'', Arr demo_output)]) ''output'' = Inr (Arr demo_output)
   \<and> (\<exists>segs cits.
           transformMessage demo_platform demo_legacy no_books =
             Inr \<lparr>msg_id = Num 7, session_id = Str ''n1'',
                  message = kept_message (leg_message demo_legacy) ai (Structured segs cits)\<rparr>
           \<and> length segs = 3
           \<and> map citation_id cits = [1, 1, 2])"
proof -
  have h1: "is_legacy_object (leg_message demo_legacy)" by (simp add: demo_legacy_def)
  have h2: "get (leg_message demo_legacy) ''type'' = Str ''ai''" by (simp add: demo_legacy_def)
  have h3: "get (leg_message demo_legacy) ''content'' = Str demo_text"
    by (simp add: demo_legacy_def)
  have h4: "JSON_parse demo_platform demo_text = Inr (Obj [(''output'', Arr demo_output)])"
    by (simp add: demo_platform_def)
  have h5: "read_prop (Obj [(''output'', Arr demo_output)]) ''output'' = Inr (Arr demo_output)"
    by (simp add: read_prop_def)
  have h6: "\<forall>outputItem\<in>set demo_output. \<not> nullish outputItem \<and>
           (has_citations demo_platform outputItem \<longrightarrow>
              (\<exists>cs. get outputItem ''citations'' = Arr cs \<and> (\<forall>c\<in>set cs. \<not> nullish c)))"
    by (simp add: demo_output_def has_citations_def)
  have len: "length demo_output = 3" by (simp add: demo_output_def)
  have ids: "concat (map (\<lambda>i. replicate (citation_count demo_platform (demo_output ! i))
                 (1 + length (filter (has_citations demo_platform) (take i demo_output))))
                         [0..<3]) = [1, 1, 2]"
    by (simp add: upt_rec demo_output_def citation_count_def has_citations_def)
  from C3_legacy_output_items [OF h1 h2 h3 h4 h5 h6, of no_books] obtain segs cits where
    r: "transformMessage demo_platform demo_legacy no_books =
             Inr \<lparr>msg_id = leg_id demo_legacy, session_id = leg_session_id demo_legacy,
                  message = kept_message (leg_message demo_legacy) ai (Structured segs cits)\<rparr>"
    and l: "length segs = length demo_output"
    and c: "map citation_id cits =
               concat (map (\<lambda>i. replicate (citation_count demo_platform (demo_output ! i))
                 (1 + length (filter (has_citations demo_platform) (take i demo_output))))
                         [0..<length demo_output])"
    by blast
  from r have r': "transformMessage demo_platform demo_legacy no_books =
             Inr \<lparr>msg_id = Num 7, session_id = Str ''n1'',
                  message = kept_message (leg_message demo_legacy) ai (Structured segs cits)\<rparr>"
    by (simp add: demo_legacy_def)
  from l len have l': "length segs = 3" by simp
  from c len ids have c': "map citation_id cits = [1, 1, 2]" by simp
  from r' l' c' have x: "\<exists>segs cits.
           transformMessage demo_platform demo_legacy no_books =
             Inr \<lparr>msg_id = Num 7, session_id = Str ''n1'',
                  message = kept_message (leg_message demo_legacy) ai (Structured segs cits)\<rparr>
           \<and> length segs = 3
           \<and> map citation_id cits = [1, 1, 2]"
    by (intro exI [of _ segs] exI [of _ cits] conjI)
  from h1 h2 h3 h4 h5 x show ?thesis by (intro conjI)
qed

subsection \<open>Placeholder title and default type of a citation\<close>

lemma legacyCitation_fields:
  "legacyCitation sm k c = Inr t \<Longrightarrow>
   source_title t = js_or (opt_get (map_get sm (source_id t)) ''title'') (Str ''Unknown Source'')
   \<and> source_type t = js_or (opt_get (map_get sm (source_id t)) ''type'') (Str ''pdf'')"
  by (auto simp: legacyCitation_def Let_def split: if_splits)

lemma pushCitations_fields:
  "pushCitations sm k cs acc = Inr r \<Longrightarrow>
   \<forall>t\<in>set acc.
      source_title t = js_or (opt_get (map_get sm (source_id t)) ''title'') (Str ''Unknown Source'')
      \<and> source_type t = js_or (opt_get (map_get sm (source_id t)) ''type'') (Str ''pdf'') \<Longrightarrow>
   \<forall>t\<in>set r.
      source_title t = js_or (opt_get (map_get sm (source_id t)) ''title'') (Str ''Unknown Source'')
      \<and> source_type t = js_or (opt_get (map_get sm (source_id t)) ''type'') (Str ''pdf'')"
proof (induction cs arbitrary: acc)
  case Nil
  then show ?case by simp
next
  case (Cons c cs)
  from Cons.prems(1) obtain t where
    t: "legacyCitation sm k c = Inr t" and r: "pushCitations sm k cs (acc @ [t]) = Inr r"
    by (auto split: sum.splits)
  from legacyCitation_fields [OF t] Cons.prems(2)
  have "\<forall>t\<in>set (acc @ [t]).
      source_title t = js_or (opt_get (map_get sm (source_id t)) ''title'') (Str ''Unknown Source'')
      \<and> source_type t = js_or (opt_get (map_get sm (source_id t)) ''type'') (Str ''pdf'')"
    by simp
  from Cons.IH [OF r this] show ?case .
qed

lemma processOutputItem_fields:
  assumes "processOutputItem pf sm outputItem (s0, c0, n0) = Inr (s, c, n)"
    and "\<forall>t\<in>set c0.
      source_title t = js_or (opt_get (map_get sm (source_id t)) ''title'') (Str ''Unknown Source'')
      \<and> source_type t = js_or (opt_get (map_get sm (source_id t)) ''type'') (Str ''pdf'')"
  shows "\<forall>t\<in>set c.
      source_title t = js_or (opt_get (map_get sm (source_id t)) ''title'') (Str ''Unknown Source'')
      \<and> source_type t = js_or (opt_get (map_get sm (source_id t)) ''type'') (Str ''pdf'')"
proof (cases "has_citations pf outputItem")
  case True
  with assms(1) obtain cs where "pushCitations sm n0 cs c0 = Inr c"
    by (auto simp: processOutputItem_def Let_def split: if_splits js.splits sum.splits)
  from pushCitations_fields [OF this assms(2)] show ?thesis .
next
  case False
  with assms(1) have "c = c0"
    by (auto simp: processOutputItem_def Let_def split: if_splits)
  with assms(2) show ?thesis by simp
qed

lemma forEachOutput_fields:
  "forEachOutput pf sm out (s0, c0, n0) = Inr (s, c, n) \<Longrightarrow>
   \<forall>t\<in>set c0.
      source_title t = js_or (opt_get (map_get sm (source_id t)) ''title'') (Str ''Unknown Source'')
      \<and> source_type t = js_or (opt_get (map_get sm (source_id t)) ''type'') (Str ''pdf'') \<Longrightarrow>
   \<forall>t\<in>set c.
      source_title t = js_or (opt_get (map_get sm (source_id t)) ''title'') (Str ''Unknown Source'')
      \<and> source_type t = js_or (opt_get (map_get sm (source_id t)) ''type'') (Str ''pdf'')"
proof (induction out arbitrary: s0 c0 n0)
  case Nil
  then show ?case by simp
next
  case (Cons a out)
  from Cons.prems(1) obtain s1 c1 n1 where
    step: "processOutputItem pf sm a (s0, c0, n0) = Inr (s1, c1, n1)" and
    rest: "forEachOutput pf sm out (s1, c1, n1) = Inr (s, c, n)"
    by (auto split: sum.splits)
  from Cons.IH [OF rest processOutputItem_fields [OF step Cons.prems(2)]] show ?case .
qed

lemma parseAiContent_structured:
  "parseAiContent pf sm messageObj = Inr m \<Longrightarrow> content m = Structured segs cits \<Longrightarrow>
   \<exists>out n. forEachOutput pf sm out ([], [], 1) = Inr (segs, cits, n)"
  by (auto simp: parseAiContent_def kept_message_def split: sum.splits js.splits prod.splits)
    blast

lemma transformMessage_structured:
  assumes "transformMessage pf item sm = Inr m"
    and "content (message m) = Structured segs cits"
  shows "\<exists>out n. forEachOutput pf sm out ([], [], 1) = Inr (segs, cits, n)"
proof -
  from assms have "\<exists>m'. parseAiContent pf sm (leg_message item) = Inr m' \<and> content m' = Structured segs cits"
    by (auto simp: transformMessage_def try_catch_def Let_def kept_message_def plain_message_def
        split: if_splits sum.splits)
  then show ?thesis using parseAiContent_structured by blast
qed

lemma transformDbRow_structured:
  assumes "transformDbRowToChatMessages item bm = Inr ms"
    and "m \<in> set ms"
    and "content (message m) = Structured segs cits"
  shows "\<exists>cs. row_citations item = Arr cs \<and> mapCitations cs 0 = Inr cits"
  using assms
  by (auto simp: transformDbRowToChatMessages_def Let_def plain_message_def
      split: if_splits sum.splits js.splits)

lemma transformCitation_fields:
  "transformCitation c i = Inr t \<Longrightarrow>
   source_title t = js_or (get c ''source_title'') (Str ''Unknown Source'')
   \<and> source_type t = js_or (get c ''source_type'') (Str ''book'')"
  by (auto simp: transformCitation_def split: if_splits)

lemma demo_legacy_eval:
  "transformMessage demo_platform demo_legacy no_books =
     Inr \<lparr>msg_id = Num 7, session_id = Str ''n1'',
          message = plain_message ai
            (Structured
               [\<lparr>seg_text = Str ''a'', seg_citation_id = Some 1\<rparr>,
                \<lparr>seg_text = Str ''b'', seg_citation_id = None\<rparr>,
                \<lparr>seg_text = Str ''c'', seg_citation_id = Some 2\<rparr>]
               [\<lparr>citation_id = 1, source_id = Str ''b1'', source_title = Str ''Unknown Source'',
                 source_type = Str ''pdf'', chunk_lines_from = Num 1, chunk_lines_to = Num 3,
                 chunk_index = Undefined, excerpt = Str ''Lines 1-3''\<rparr>,
                \<lparr>citation_id = 1, source_id = Str ''b2'', source_title = Str ''Unknown Source'',
                 source_type = Str ''pdf'', chunk_lines_from = Num 4, chunk_lines_to = Num 9,
                 chunk_index = Undefined, excerpt = Str ''Lines 4-9''\<rparr>,
                \<lparr>citation_id = 2, source_id = Str ''b1'', source_title = Str ''Unknown Source'',
                 source_type = Str ''pdf'', chunk_lines_from = Num 10, chunk_lines_to = Num 12,
                 chunk_index = Undefined, excerpt = Str ''Lines 10-12''\<rparr>])\<rparr>"
  by code_simp

lemma row_r2_eval:
  "transformDbRowToChatMessages row_r2 no_books =
     Inr [\<lparr>msg_id = Str ''r2-user'', session_id = Str ''n1'',
           message = plain_message human (Raw (Str ''Q''))\<rparr>,
          \<lparr>msg_id = Str ''r2-assistant'', session_id = Str ''n1'',
           message = plain_message ai
             (Structured [\<lparr>seg_text = Str ''A'', seg_citation_id = Some 1\<rparr>]
                [\<lparr>citation_id = 1, source_id = Str ''b1'', source_title = Str ''Book'',
                  source_type = Str ''book'', chunk_lines_from = Num 1, chunk_lines_to = Num 3,
                  chunk_index = Num 0, excerpt = Undefined\<rparr>,
                 \<lparr>citation_id = 2, source_id = Str ''b2'', source_title = Str ''Unknown Source'',
                  source_type = Str ''book'', chunk_lines_from = Undefined,
                  chunk_lines_to = Undefined, chunk_index = Num 1, excerpt = Undefined\<rparr>])\<rparr>]"
  by code_simp

text \<open>
  Claim C4, as amended. In the row schema the lookup table is not consulted: a citation
  whose own \<^verbatim>\<open>source_title\<close> is missing or empty gets the title \<^verbatim>\<open>Unknown Source\<close>,
  and one whose own \<^verbatim>\<open>source_type\<close> is missing or empty gets the type \<^verbatim>\<open>book\<close>. In
  the legacy encoding a citation whose source id is not in the lookup table (or whose entry
  has no title) gets the title \<^verbatim>\<open>Unknown Source\<close>, and one whose entry is missing or
  has no type gets the type \<^verbatim>\<open>pdf\<close>.
\<close>

theorem C4_placeholder_title_and_type:
  "(transformDbRowToChatMessages item bookMap = Inr ms \<and> m \<in> set ms
      \<and> content (message m) = Structured segs cits \<longrightarrow>
      (\<exists>cs. row_citations item = Arr cs \<and> length cits = length cs \<and>
         (\<forall>i<length cs.
            (\<not> truthy (get (cs ! i) ''source_title'') \<longrightarrow>
               source_title (cits ! i) = Str ''Unknown Source'') \<and>
            (\<not> truthy (get (cs ! i) ''source_type'') \<longrightarrow>
               source_type (cits ! i) = Str ''book''))))
   \<and> (transformMessage pf legacyItem sourceMap = Inr lm
      \<and> content (message lm) = Structured lsegs lcits \<longrightarrow>
      (\<forall>t\<in>set lcits.
         (\<not> truthy (opt_get (map_get sourceMap (source_id t)) ''title'') \<longrightarrow>
            source_title t = Str ''Unknown Source'') \<and>
         (\<not> truthy (opt_get (map_get sourceMap (source_id t)) ''type'') \<longrightarrow>
            source_type t = Str ''pdf'')))"
proof (intro conjI impI)
  assume a: "transformDbRowToChatMessages item bookMap = Inr ms \<and> m \<in> set ms
      \<and> content (message m) = Structured segs cits"
  then obtain cs where cs: "row_citations item = Arr cs" and mc: "mapCitations cs 0 = Inr cits"
    using transformDbRow_structured by blast
  have len: "length cits = length cs" using mapCitations_length [OF mc] .
  have "\<forall>i<length cs.
            (\<not> truthy (get (cs ! i) ''source_title'') \<longrightarrow>
               source_title (cits ! i) = Str ''Unknown Source'') \<and>
            (\<not> truthy (get (cs ! i) ''source_type'') \<longrightarrow>
               source_type (cits ! i) = Str ''book'')"
  proof (intro allI impI)
    fix i assume "i < length cs"
    from mapCitations_nth [OF mc this] have "transformCitation (cs ! i) i = Inr (cits ! i)" by simp
    from transformCitation_fields [OF this]
    show "(\<not> truthy (get (cs ! i) ''source_title'') \<longrightarrow>
               source_title (cits ! i) = Str ''Unknown Source'') \<and>
            (\<not> truthy (get (cs ! i) ''source_type'') \<longrightarrow>
               source_type (cits ! i) = Str ''book'')"
      by (simp add: js_or_def)
  qed
  with cs len show "\<exists>cs. row_citations item = Arr cs \<and> length cits = length cs \<and>
         (\<forall>i<length cs.
            (\<not> truthy (get (cs ! i) ''source_title'') \<longrightarrow>
               source_title (cits ! i) = Str ''Unknown Source'') \<and>
            (\<not> truthy (get (cs ! i) ''source_type'') \<longrightarrow>
               source_type (cits ! i) = Str ''book''))"
    by blast
next
  assume a: "transformMessage pf legacyItem sourceMap = Inr lm
      \<and> content (message lm) = Structured lsegs lcits"
  then obtain out n where
    run: "forEachOutput pf sourceMap out ([], [], 1) = Inr (lsegs, lcits, n)"
    using transformMessage_structured by blast
  have "\<forall>t\<in>set lcits.
      source_title t = js_or (opt_get (map_get sourceMap (source_id t)) ''title'') (Str ''Unknown Source'')
      \<and> source_type t = js_or (opt_get (map_get sourceMap (source_id t)) ''type'') (Str ''pdf'')"
    by (rule forEachOutput_fields [OF run]) simp
  then show "\<forall>t\<in>set lcits.
         (\<not> truthy (opt_get (map_get sourceMap (source_id t)) ''title'') \<longrightarrow>
            source_title t = Str ''Unknown Source'') \<and>
         (\<not> truthy (opt_get (map_get sourceMap (source_id t)) ''type'') \<longrightarrow>
            source_type t = Str ''pdf'')"
    by (simp add: js_or_def)
qed

text \<open>The theorem at the row r2, whose second citation has neither title nor type, and at
  the example legacy message with an empty lookup table.\<close>

theorem C4_placeholder_title_and_type_witness:
  "(\<exists>ms m segs cits cs.
      transformDbRowToChatMessages row_r2 no_books = Inr ms \<and> m \<in> set ms
      \<and> content (message m) = Structured segs cits
      \<and> row_citations row_r2 = Arr cs \<and> length cits = length cs
      \<and> \<not> truthy (get (cs ! 1) ''source_title'') \<and> \<not> truthy (get (cs ! 1) ''source_type'')
      \<and> source_title (cits ! 1) = Str ''Unknown Source''
      \<and> source_type (cits ! 1) = Str ''book'')
   \<and> (\<exists>lm lsegs lcits.
      transformMessage demo_platform demo_legacy no_books = Inr lm
      \<and> content (message lm) = Structured lsegs lcits
      \<and> lcits \<noteq> []
      \<and> (\<forall>t\<in>set lcits. source_title t = Str ''Unknown Source'' \<and> source_type t = Str ''pdf''))"
proof -
  let ?u = "\<lparr>msg_id = Str ''r2-user'', session_id = Str ''n1'',
           message = plain_message human (Raw (Str ''Q''))\<rparr>"
  let ?segs = "[\<lparr>seg_text = Str ''A'', seg_citation_id = Some 1\<rparr>]"
  let ?cits = "[\<lparr>citation_id = 1, source_id = Str ''b1'', source_title = Str ''Book'',
                  source_type = Str ''book'', chunk_lines_from = Num 1, chunk_lines_to = Num 3,
                  chunk_index = Num 0, excerpt = Undefined\<rparr>,
                 \<lparr>citation_id = 2, source_id = Str ''b2'', source_title = Str ''Unknown Source'',
                  source_type = Str ''book'', chunk_lines_from = Undefined,
                  chunk_lines_to = Undefined, chunk_index = Num 1, excerpt = Undefined\<rparr>]"
  let ?a = "\<lparr>msg_id = Str ''r2-assistant'', session_id = Str ''n1'',
           message = plain_message ai (Structured ?segs ?cits)\<rparr>"
  let ?lsegs = "[\<lparr>seg_text = Str ''a'', seg_citation_id = Some 1\<rparr>,
                \<lparr>seg_text = Str ''b'', seg_citation_id = None\<rparr>,
                \<lparr>seg_text = Str ''c'', seg_citation_id = Some 2\<rparr>]"
  let ?lcits = "[\<lparr>citation_id = 1, source_id = Str ''b1'', source_title = Str ''Unknown Source'',
                 source_type = Str ''pdf'', chunk_lines_from = Num 1, chunk_lines_to = Num 3,
                 chunk_index = Undefined, excerpt = Str ''Lines 1-3''\<rparr>,
                \<lparr>citation_id = 1, source_id = Str ''b2'', source_title = Str ''Unknown Source'',
                 source_type = Str ''pdf'', chunk_lines_from = Num 4, chunk_lines_to = Num 9,
                 chunk_index = Undefined, excerpt = Str ''Lines 4-9''\<rparr>,
                \<lparr>citation_id = 2, source_id = Str ''b1'', source_title = Str ''Unknown Source'',
                 source_type = Str ''pdf'', chunk_lines_from = Num 10, chunk_lines_to = Num 12,
                 chunk_index = Undefined, excerpt = Str ''Lines 10-12''\<rparr>]"
  let ?lm = "\<lparr>msg_id = Num 7, session_id = Str ''n1'',
          message = plain_message ai (Structured ?lsegs ?lcits)\<rparr>"
  note inst = C4_placeholder_title_and_type
    [of row_r2 no_books "[?u, ?a]" ?a ?segs ?cits demo_platform demo_legacy no_books
        ?lm ?lsegs ?lcits]
  have r1: "transformDbRowToChatMessages row_r2 no_books = Inr [?u, ?a]" by (rule row_r2_eval)
  have r2: "?a \<in> set [?u, ?a]" by simp
  have r3: "content (message ?a) = Structured ?segs ?cits" by (simp add: plain_message_def)
  from inst r1 r2 r3 obtain cs where
    cs: "row_citations row_r2 = Arr cs" and len: "length ?cits = length cs" and
    all: "\<forall>i<length cs.
            (\<not> truthy (get (cs ! i) ''source_title'') \<longrightarrow>
               source_title (?cits ! i) = Str ''Unknown Source'') \<and>
            (\<not> truthy (get (cs ! i) ''source_type'') \<longrightarrow>
               source_type (?cits ! i) = Str ''book'')"
    by blast
  from cs have cs1: "cs ! 1 = Obj [(''source_id'', Str ''b2'')]" by (auto simp: row_r2_def)
  have f1: "\<not> truthy (get (cs ! 1) ''source_title'')" and f2: "\<not> truthy (get (cs ! 1) ''source_type'')"
    unfolding cs1 by simp_all
  from len have "1 < length cs" by simp
  with all f1 f2 have g: "source_title (?cits ! 1) = Str ''Unknown Source''"
    "source_type (?cits ! 1) = Str ''book''" by blast+
  from r1 r2 r3 cs len f1 f2 g have part1: "\<exists>ms m segs cits cs.
      transformDbRowToChatMessages row_r2 no_books = Inr ms \<and> m \<in> set ms
      \<and> content (message m) = Structured segs cits
      \<and> row_citations row_r2 = Arr cs \<and> length cits = length cs
      \<and> \<not> truthy (get (cs ! 1) ''source_title'') \<and> \<not> truthy (get (cs ! 1) ''source_type'')
      \<and> source_title (cits ! 1) = Str ''Unknown Source''
      \<and> source_type (cits ! 1) = Str ''book''"
    by (intro exI [of _ "[?u, ?a]"] exI [of _ ?a] exI [of _ ?segs] exI [of _ ?cits]
        exI [of _ cs] conjI)
  have l1: "transformMessage demo_platform demo_legacy no_books = Inr ?lm"
    by (rule demo_legacy_eval)
  have l2: "content (message ?lm) = Structured ?lsegs ?lcits" by (simp add: plain_message_def)
  from inst l1 l2 have lall: "\<forall>t\<in>set ?lcits.
         (\<not> truthy (opt_get (map_get no_books (source_id t)) ''title'') \<longrightarrow>
            source_title t = Str ''Unknown Source'') \<and>
         (\<not> truthy (opt_get (map_get no_books (source_id t)) ''type'') \<longrightarrow>
            source_type t = Str ''pdf'')"
    by blast
  have unresolved: "\<And>k. \<not> truthy (opt_get (map_get no_books k) ''title'')"
    "\<And>k. \<not> truthy (opt_get (map_get no_books k) ''type'')"
    by (case_tac k; simp add: no_books_def opt_get_def)+
  from lall unresolved have l3:
    "\<forall>t\<in>set ?lcits. source_title t = Str ''Unknown Source'' \<and> source_type t = Str ''pdf''"
    by blast
  have l4: "?lcits \<noteq> []" by simp
  from l1 l2 l4 l3 have part2: "\<exists>lm lsegs lcits.
      transformMessage demo_platform demo_legacy no_books = Inr lm
      \<and> content (message lm) = Structured lsegs lcits
      \<and> lcits \<noteq> []
      \<and> (\<forall>t\<in>set lcits. source_title t = Str ''Unknown Source'' \<and> source_type t = Str ''pdf'')"
    by (intro exI [of _ ?lm] exI [of _ ?lsegs] exI [of _ ?lcits] conjI)
  from part1 part2 show ?thesis by (intro conjI)
qed

text \<open>Claim C4 as stated fails in the legacy encoding: with an empty lookup table no source
  id resolves, and the citations of the example message have the type \<^verbatim>\<open>pdf\<close>, not
  \<^verbatim>\<open>book\<close>.\<close>

theorem C4_legacy_type_counterexample:
  "map_get no_books (Str ''b1'') = Undefined
   \<and> map source_id (structured_citations (content (message
         (projr (transformMessage demo_platform demo_legacy no_books)))))
       = [Str ''b1'', Str ''b2'', Str ''b1'']
   \<and> map source_type (structured_citations (content (message
         (projr (transformMessage demo_platform demo_legacy no_books)))))
       = [Str ''pdf'', Str ''pdf'', Str ''pdf'']"
proof -
  have unresolved: "map_get no_books (Str ''b1'') = Undefined" by (simp add: no_books_def)
  show ?thesis
    unfolding demo_legacy_eval using unresolved by (simp add: plain_message_def)
qed

subsection \<open>The legacy normalizer never raises\<close>

lemma transformMessage_returns: "\<exists>m. transformMessage pf item sm = Inr m"
  by (simp add: transformMessage_def try_catch_def Let_def split: sum.splits)

lemma parseAiContent_no_array:
  assumes "get messageObj ''content'' = Str s"
    and "JSON_parse pf s = Inr parsed"
    and "\<forall>out. read_prop parsed ''output'' \<noteq> Inr (Arr out)"
  shows "parseAiContent pf sm messageObj = Inl TypeError
         \<or> parseAiContent pf sm messageObj = Inr (kept_message messageObj ai (Raw (Str s)))"
  using assms
  by (auto simp: parseAiContent_def read_prop_def split: sum.splits js.splits if_splits)

text \<open>
  Claim C5. transformMessage returns a message for every input. For an AI message whose
  content is a string (the messages whose content is parsed), when \<^verbatim>\<open>JSON.parse\<close>
  raises, or the decoded value has no \<^verbatim>\<open>output\<close> array, or the loop over the output
  items raises, the message returned has the content string verbatim. Any other object with
  \<^verbatim>\<open>type\<close> and \<^verbatim>\<open>content\<close> keeps its content, or gets \<^verbatim>\<open>Empty message\<close> when
  the content is empty or absent. For an item whose message is not such an object, the
  result is a human message: the message itself if it is a string, the text
  \<^verbatim>\<open>Unable to parse message\<close> otherwise.
\<close>

theorem C5_never_raises:
  "(\<exists>m. transformMessage pf item sourceMap = Inr m)
   \<and> (is_legacy_object (leg_message item)
       \<and> get (leg_message item) ''type'' = Str ''ai''
       \<and> get (leg_message item) ''content'' = Str s
       \<and> ((\<exists>e. JSON_parse pf s = Inl e)
          \<or> (\<exists>parsed. JSON_parse pf s = Inr parsed
                \<and> (\<forall>out. read_prop parsed ''output'' \<noteq> Inr (Arr out)))
          \<or> (\<exists>parsed out e. JSON_parse pf s = Inr parsed
                \<and> read_prop parsed ''output'' = Inr (Arr out)
                \<and> forEachOutput pf sourceMap out ([], [], 1) = Inl e))
       \<longrightarrow> transformMessage pf item sourceMap =
             Inr \<lparr>msg_id = leg_id item, session_id = leg_session_id item,
                  message = kept_message (leg_message item) ai (Raw (Str s))\<rparr>)
   \<and> (is_legacy_object (leg_message item)
       \<and> \<not> (get (leg_message item) ''type'' = Str ''ai''
              \<and> is_string (get (leg_message item) ''content''))
       \<longrightarrow> transformMessage pf item sourceMap =
             Inr \<lparr>msg_id = leg_id item, session_id = leg_session_id item,
                  message = kept_message (leg_message item)
                    (if get (leg_message item) ''type'' = Str ''human'' then human else ai)
                    (Raw (js_or (get (leg_message item) ''content'') (Str ''Empty message'')))\<rparr>)
   \<and> (\<not> is_legacy_object (leg_message item)
       \<longrightarrow> transformMessage pf item sourceMap =
             Inr \<lparr>msg_id = leg_id item, session_id = leg_session_id item,
                  message = plain_message human
                    (Raw (if is_string (leg_message item) then leg_message item
                          else Str ''Unable to parse message''))\<rparr>)"
proof (intro conjI impI)
  show "\<exists>m. transformMessage pf item sourceMap = Inr m" by (rule transformMessage_returns)
next
  assume a: "is_legacy_object (leg_message item)
       \<and> get (leg_message item) ''type'' = Str ''ai''
       \<and> get (leg_message item) ''content'' = Str s
       \<and> ((\<exists>e. JSON_parse pf s = Inl e)
          \<or> (\<exists>parsed. JSON_parse pf s = Inr parsed
                \<and> (\<forall>out. read_prop parsed ''output'' \<noteq> Inr (Arr out)))
          \<or> (\<exists>parsed out e. JSON_parse pf s = Inr parsed
                \<and> read_prop parsed ''output'' = Inr (Arr out)
                \<and> forEachOutput pf sourceMap out ([], [], 1) = Inl e))"
  then have shape: "is_legacy_object (leg_message item)"
    "get (leg_message item) ''type'' = Str ''ai''"
    "get (leg_message item) ''content'' = Str s" by simp_all
  let ?verbatim = "kept_message (leg_message item) ai (Raw (Str s))"
  have "(case parseAiContent pf sourceMap (leg_message item) of
           Inl e \<Rightarrow> ?verbatim | Inr m \<Rightarrow> m) = ?verbatim"
  proof -
    from a consider
      (fails) e where "JSON_parse pf s = Inl e"
      | (no_array) parsed where "JSON_parse pf s = Inr parsed"
          "\<forall>out. read_prop parsed ''output'' \<noteq> Inr (Arr out)"
      | (raises) parsed out e where "JSON_parse pf s = Inr parsed"
          "read_prop parsed ''output'' = Inr (Arr out)"
          "forEachOutput pf sourceMap out ([], [], 1) = Inl e"
      by blast
    then show ?thesis
    proof cases
      case fails
      with shape(3) show ?thesis by (simp add: parseAiContent_def)
    next
      case no_array
      from parseAiContent_no_array [OF shape(3) no_array, of sourceMap]
      show ?thesis by auto
    next
      case raises
      from raises(3) have "forEachOutput pf sourceMap out ([], [], Suc 0) = Inl e" by simp
      with raises(1,2) shape(3) show ?thesis by (simp add: parseAiContent_def)
    qed
  qed
  then show "transformMessage pf item sourceMap =
             Inr \<lparr>msg_id = leg_id item, session_id = leg_session_id item,
                  message = kept_message (leg_message item) ai (Raw (Str s))\<rparr>"
    by (simp add: transformMessage_parsed [OF shape])
next
  assume "is_legacy_object (leg_message item)
       \<and> \<not> (get (leg_message item) ''type'' = Str ''ai''
              \<and> is_string (get (leg_message item) ''content''))"
  then show "transformMessage pf item sourceMap =
             Inr \<lparr>msg_id = leg_id item, session_id = leg_session_id item,
                  message = kept_message (leg_message item)
                    (if get (leg_message item) ''type'' = Str ''human'' then human else ai)
                    (Raw (js_or (get (leg_message item) ''content'') (Str ''Empty message'')))\<rparr>"
    by (auto simp: transformMessage_def Let_def)
next
  assume "\<not> is_legacy_object (leg_message item)"
  then show "transformMessage pf item sourceMap =
             Inr \<lparr>msg_id = leg_id item, session_id = leg_session_id item,
                  message = plain_message human
                    (Raw (if is_string (leg_message item) then leg_message item
                          else Str ''Unable to parse message''))\<rparr>"
    by (simp add: transformMessage_def)
qed

text \<open>The theorem at a message whose content \<^verbatim>\<open>hello\<close> is not JSON, and at an item whose
  message is a number.\<close>

theorem C5_never_raises_witness:
  "is_legacy_object (leg_message demo_plain)
   \<and> get (leg_message demo_plain) ''type'' = Str ''ai''
   \<and> get (leg_message demo_plain) ''content'' = Str ''hello''
   \<and> JSON_parse demo_platform ''hello'' = Inl SyntaxError
   \<and> transformMessage demo_platform demo_plain no_books =
       Inr \<lparr>msg_id = Num 8, session_id = Str ''n1'',
            message = plain_message ai (Raw (Str ''hello''))\<rparr>
   \<and> \<not> is_legacy_object (leg_message demo_unrecognized)
   \<and> transformMessage demo_platform demo_unrecognized no_books =
       Inr \<lparr>msg_id = Num 9, session_id = Str ''n1'',
            message = plain_message human (Raw (Str ''Unable to parse message''))\<rparr>"
proof -
  have h1: "is_legacy_object (leg_message demo_plain)" by (simp add: demo_plain_def)
  have h2: "get (leg_message demo_plain) ''type'' = Str ''ai''" by (simp add: demo_plain_def)
  have h3: "get (leg_message demo_plain) ''content'' = Str ''hello''"
    by (simp add: demo_plain_def)
  have h4: "JSON_parse demo_platform ''hello'' = Inl SyntaxError"
    by (simp add: demo_platform_def demo_text_def)
  from h4 have h4': "\<exists>e. JSON_parse demo_platform ''hello'' = Inl e" by blast
  have h5: "\<not> is_legacy_object (leg_message demo_unrecognized)"
    by (simp add: demo_unrecognized_def)
  from C5_never_raises [of demo_platform demo_plain no_books "''hello''"] h1 h2 h3 h4'
  have "transformMessage demo_platform demo_plain no_books =
             Inr \<lparr>msg_id = leg_id demo_plain, session_id = leg_session_id demo_plain,
                  message = kept_message (leg_message demo_plain) ai (Raw (Str ''hello''))\<rparr>"
    by blast
  then have r1: "transformMessage demo_platform demo_plain no_books =
       Inr \<lparr>msg_id = Num 8, session_id = Str ''n1'',
            message = plain_message ai (Raw (Str ''hello''))\<rparr>"
    by (simp add: demo_plain_def kept_message_def plain_message_def)
  from C5_never_raises [of demo_platform demo_unrecognized no_books "[]"] h5
  have "transformMessage demo_platform demo_unrecognized no_books =
             Inr \<lparr>msg_id = leg_id demo_unrecognized, session_id = leg_session_id demo_unrecognized,
                  message = plain_message human
                    (Raw (if is_string (leg_message demo_unrecognized)
                          then leg_message demo_unrecognized
                          else Str ''Unable to parse message''))\<rparr>"
    by blast
  then have r2: "transformMessage demo_platform demo_unrecognized no_books =
       Inr \<lparr>msg_id = Num 9, session_id = Str ''n1'',
            message = plain_message human (Raw (Str ''Unable to parse message''))\<rparr>"
    by (simp add: demo_unrecognized_def)
  from h1 h2 h3 h4 r1 h5 r2 show ?thesis by (intro conjI)
qed

subsection \<open>Merging a pushed row into the cache\<close>

lemma mergeNewMessages_append:
  "mergeNewMessages new old =
     (case old of None \<Rightarrow> [] | Some ms \<Rightarrow> ms) @
     filter (\<lambda>msg. msg_id msg \<notin> set (map msg_id (case old of None \<Rightarrow> [] | Some ms \<Rightarrow> ms))) new"
  by (simp add: mergeNewMessages_def Let_def)

lemma filter_twice_empty:
  "filter (\<lambda>m. f m \<notin> set (map f (xs @ filter (\<lambda>m. f m \<notin> set (map f xs)) new))) new = []"
  by (auto simp: filter_empty_conv)

lemma mergeNewMessages_idem:
  "mergeNewMessages new (Some (mergeNewMessages new old)) = mergeNewMessages new old"
proof -
  let ?olds = "case old of None \<Rightarrow> [] | Some ms \<Rightarrow> ms"
  let ?add = "filter (\<lambda>msg. msg_id msg \<notin> set (map msg_id ?olds)) new"
  have once: "mergeNewMessages new old = ?olds @ ?add" by (rule mergeNewMessages_append)
  have "mergeNewMessages new (Some (?olds @ ?add)) =
          (?olds @ ?add) @ filter (\<lambda>msg. msg_id msg \<notin> set (map msg_id (?olds @ ?add))) new"
    by (simp add: mergeNewMessages_append)
  also have "\<dots> = ?olds @ ?add" by (simp only: filter_twice_empty append_Nil2)
  finally show ?thesis by (simp only: once)
qed

lemma setQueryData_merge_idem:
  "setQueryData key (mergeNewMessages new) (setQueryData key (mergeNewMessages new) c) =
   setQueryData key (mergeNewMessages new) c"
  by (simp add: setQueryData_def mergeNewMessages_idem)

lemma row_r2_push:
  "transformDbRowToChatMessages row_r2 (makeBookMap None) =
     transformDbRowToChatMessages row_r2 no_books"
  by (simp add: transformDbRowToChatMessages_def)

text \<open>
  Claim C6. The merge of the realtime INSERT handler is idempotent and insert-once: merging
  the same messages a second time changes nothing; the merged data is the old data, in its
  order and unchanged, followed by those new messages whose id is not among the old ids.
  For every cache and every pushed row on which the handler completes, running the handler
  again on the resulting cache returns that same cache; the entries of other keys and the
  pending refetches are as before.
\<close>

theorem C6_push_merge_idempotent:
  "mergeNewMessages newMessages (Some (mergeNewMessages newMessages old)) =
     mergeNewMessages newMessages old
   \<and> mergeNewMessages newMessages old =
       (case old of None \<Rightarrow> [] | Some ms \<Rightarrow> ms) @
       filter (\<lambda>msg. msg_id msg \<notin> set (map msg_id (case old of None \<Rightarrow> [] | Some ms \<Rightarrow> ms)))
         newMessages
   \<and> (onChatMessageInserted notebookId payload_new booksData c = Inr c' \<longrightarrow>
        onChatMessageInserted notebookId payload_new booksData c' = Inr c'
        \<and> refetches c' = refetches c
        \<and> (\<forall>key. key \<noteq> notebookId \<longrightarrow> cache c' key = cache c key)
        \<and> (\<exists>pushed.
              transformDbRowToChatMessages payload_new (makeBookMap booksData) = Inr pushed
              \<and> data (cache c' notebookId) =
                  Some ((case data (cache c notebookId) of None \<Rightarrow> [] | Some ms \<Rightarrow> ms) @
                        filter (\<lambda>msg. msg_id msg \<notin>
                                  set (map msg_id (case data (cache c notebookId) of
                                                     None \<Rightarrow> [] | Some ms \<Rightarrow> ms)))
                          pushed)))"
proof (intro conjI impI)
  show "mergeNewMessages newMessages (Some (mergeNewMessages newMessages old)) =
     mergeNewMessages newMessages old" by (rule mergeNewMessages_idem)
next
  show "mergeNewMessages newMessages old =
       (case old of None \<Rightarrow> [] | Some ms \<Rightarrow> ms) @
       filter (\<lambda>msg. msg_id msg \<notin> set (map msg_id (case old of None \<Rightarrow> [] | Some ms \<Rightarrow> ms)))
         newMessages" by (rule mergeNewMessages_append)
next
  assume a: "onChatMessageInserted notebookId payload_new booksData c = Inr c'"
  then obtain pushed where
    p: "transformDbRowToChatMessages payload_new (makeBookMap booksData) = Inr pushed" and
    c': "c' = setQueryData notebookId (mergeNewMessages pushed) c"
    by (auto simp: onChatMessageInserted_def split: sum.splits)
  show "onChatMessageInserted notebookId payload_new booksData c' = Inr c'"
    by (simp add: onChatMessageInserted_def p c' setQueryData_merge_idem)
  show "refetches c' = refetches c" by (simp add: c' setQueryData_def)
  show "\<forall>key. key \<noteq> notebookId \<longrightarrow> cache c' key = cache c key"
    by (simp add: c' setQueryData_def)
  have "data (cache c' notebookId) = Some (mergeNewMessages pushed (data (cache c notebookId)))"
    by (simp add: c' setQueryData_def)
  with p show "\<exists>pushed.
              transformDbRowToChatMessages payload_new (makeBookMap booksData) = Inr pushed
              \<and> data (cache c' notebookId) =
                  Some ((case data (cache c notebookId) of None \<Rightarrow> [] | Some ms \<Rightarrow> ms) @
                        filter (\<lambda>msg. msg_id msg \<notin>
                                  set (map msg_id (case data (cache c notebookId) of
                                                     None \<Rightarrow> [] | Some ms \<Rightarrow> ms)))
                          pushed)"
    by (simp add: mergeNewMessages_append)
qed

text \<open>The theorem at the row r2 pushed into an empty cache, twice.\<close>

theorem C6_push_merge_idempotent_witness:
  "\<exists>c'. onChatMessageInserted ''n1'' row_r2 None empty_client = Inr c'
        \<and> onChatMessageInserted ''n1'' row_r2 None c' = Inr c'
        \<and> map msg_id (the (data (cache c' ''n1''))) = [Str ''r2-user'', Str ''r2-assistant'']"
proof -
  let ?c = "setQueryData ''n1''
              (mergeNewMessages (projr (transformDbRowToChatMessages row_r2 no_books))) empty_client"
  have e: "\<exists>ms. transformDbRowToChatMessages row_r2 no_books = Inr ms"
    by (simp add: row_r2_eval)
  have h: "onChatMessageInserted ''n1'' row_r2 None empty_client = Inr ?c"
    using e by (auto simp: onChatMessageInserted_def row_r2_push)
  from C6_push_merge_idempotent [of _ _ "''n1''" row_r2 None empty_client ?c] h
  have again: "onChatMessageInserted ''n1'' row_r2 None ?c = Inr ?c" by blast
  have ids: "map msg_id (the (data (cache ?c ''n1''))) = [Str ''r2-user'', Str ''r2-assistant'']"
    by (simp add: row_r2_eval setQueryData_def empty_client_def mergeNewMessages_def)
  from h again ids show ?thesis by (intro exI [of _ ?c] conjI)
qed

subsection \<open>Deleting the chat history\<close>

lemma listChatMessages_after_delete:
  "listChatMessages notebookId None booksData
     (filter (\<lambda>r. notebook_id r \<noteq> Str notebookId) table) = Inr []"
proof -
  have "filter (\<lambda>r. notebook_id r = Str notebookId)
          (filter (\<lambda>r. notebook_id r \<noteq> Str notebookId) table) = []"
    by (simp add: filter_empty_conv)
  then show ?thesis by (simp add: listChatMessages_def)
qed

text \<open>
  Claim C7, as amended. On a successful deleteChatHistory the rows of the notebook are
  deleted, the cached data of the notebook becomes the empty list, and the query is then
  invalidated and its refetch asked for. The cache read right after is empty, and so is
  what the query function returns from the store after the deletion.
\<close>

theorem C7_delete_clears_and_invalidates:
  assumes "deleteChatHistory True None notebookId w = (outcome, w')"
  shows "outcome = None
         \<and> chat_messages w' = filter (\<lambda>r. notebook_id r \<noteq> Str notebookId) (chat_messages w)
         \<and> data (cache (ui w') notebookId) = Some []
         \<and> isInvalidated (cache (ui w') notebookId)
         \<and> refetches (ui w') = refetches (ui w) @ [notebookId]
         \<and> listChatMessages notebookId None booksData (chat_messages w') = Inr []"
proof -
  from assms have o: "outcome = None" and
    w': "w' = (w\<lparr>chat_messages := filter (\<lambda>r. notebook_id r \<noteq> Str notebookId) (chat_messages w)\<rparr>)
              \<lparr>ui := invalidateQueries notebookId
                      (setQueryData notebookId (\<lambda>old. [])
                         ((ui w)\<lparr>toasts := toasts (ui w) @ [''Chat history cleared'']\<rparr>))\<rparr>"
    by (simp_all add: deleteChatHistory_def)
  have t: "chat_messages w' = filter (\<lambda>r. notebook_id r \<noteq> Str notebookId) (chat_messages w)"
    by (simp add: w')
  have d: "data (cache (ui w') notebookId) = Some []"
    by (simp add: w' invalidateQueries_def setQueryData_def)
  have i: "isInvalidated (cache (ui w') notebookId)"
    by (simp add: w' invalidateQueries_def setQueryData_def)
  have r: "refetches (ui w') = refetches (ui w) @ [notebookId]"
    by (simp add: w' invalidateQueries_def setQueryData_def)
  have l: "listChatMessages notebookId None booksData (chat_messages w') = Inr []"
    unfolding t by (rule listChatMessages_after_delete)
  from o t d i r l show ?thesis by (intro conjI)
qed

text \<open>The theorem at a world with stale data of n1 in the cache.\<close>

theorem C7_delete_clears_and_invalidates_witness:
  "\<exists>w'. deleteChatHistory True None ''n1'' world0 = (None, w')
        \<and> chat_messages w' = [row_other]
        \<and> data (cache (ui w') ''n1'') = Some []
        \<and> isInvalidated (cache (ui w') ''n1'')
        \<and> refetches (ui w') = [''n1'']
        \<and> listChatMessages ''n1'' None None (chat_messages w') = Inr []"
proof -
  obtain outcome w' where h: "deleteChatHistory True None ''n1'' world0 = (outcome, w')"
    by (cases "deleteChatHistory True None ''n1'' world0")
  note c = C7_delete_clears_and_invalidates [OF h, of None]
  from c have o: "outcome = None" by blast
  from c have "chat_messages w' = filter (\<lambda>r. notebook_id r \<noteq> Str ''n1'') (chat_messages world0)"
    by blast
  then have t: "chat_messages w' = [row_other]"
    by (simp add: world0_def row_r1_def row_r2_def row_other_def)
  from c have "refetches (ui w') = refetches (ui world0) @ [''n1'']" by blast
  then have r: "refetches (ui w') = [''n1'']" by (simp add: world0_def)
  from c have d: "data (cache (ui w') ''n1'') = Some []"
    and i: "isInvalidated (cache (ui w') ''n1'')"
    and l: "listChatMessages ''n1'' None None (chat_messages w') = Inr []" by blast+
  from h o have h': "deleteChatHistory True None ''n1'' world0 = (None, w')" by simp
  from h' t d i r l show ?thesis by (intro exI [of _ w'] conjI)
qed

text \<open>Claim C7 as stated fails: after the successful deletion the query of n1 is invalidated
  and its refetch has been asked for.\<close>

theorem C7_invalidates_counterexample:
  "fst (deleteChatHistory True None ''n1'' world0) = None
   \<and> isInvalidated (cache (ui (snd (deleteChatHistory True None ''n1'' world0))) ''n1'')
   \<and> refetches (ui (snd (deleteChatHistory True None ''n1'' world0))) = [''n1'']"
  by (simp add: deleteChatHistory_def invalidateQueries_def setQueryData_def world0_def)

subsection \<open>Retrying reads\<close>

lemma retries_notebooks_bound:
  "retries notebooksRetry failureCount errs
     \<le> min (3 - failureCount) (length (takeWhile (\<lambda>e. \<not> auth_failure e) errs))"
proof (induction errs arbitrary: failureCount)
  case Nil
  then show ?case by simp
next
  case (Cons e errs)
  show ?case
  proof (cases "notebooksRetry failureCount e")
    case True
    then have na: "\<not> auth_failure e" and lt: "failureCount < 3"
      by (auto simp: notebooksRetry_def auth_failure_def split: if_splits)
    from Cons.IH [of "Suc failureCount"] na lt True show ?thesis by (simp, arith)
  next
    case False
    then show ?thesis by simp
  qed
qed

lemma jwt_is_auth: "auth_failure jwt_expired"
  by (simp add: auth_failure_def message_includes_def jwt_expired_def)

lemma network_not_auth: "\<not> auth_failure network_down"
  by code_simp

text \<open>
  Claim C8, as amended. The notebooks query retries a failure only while fewer than three
  failures came before it and never when the message of the error contains \<^verbatim>\<open>JWT\<close> or
  \<^verbatim>\<open>auth\<close>: it is retried at most three times, and never past an authentication
  failure. The chat-messages query sets no retry option: it follows the default of the
  query client, whatever that is.
\<close>

theorem C8_retry_policy:
  "(effectiveRetry clientDefault notebooksQuery failureCount e \<longrightarrow>
      failureCount < 3 \<and> \<not> auth_failure e)
   \<and> retries (effectiveRetry clientDefault notebooksQuery) 0 errs \<le> 3
   \<and> retries (effectiveRetry clientDefault notebooksQuery) 0 errs
       \<le> length (takeWhile (\<lambda>e. \<not> auth_failure e) errs)
   \<and> effectiveRetry clientDefault chatMessagesQuery = clientDefault"
proof -
  have n: "effectiveRetry clientDefault notebooksQuery = notebooksRetry"
    by (simp add: effectiveRetry_def notebooksQuery_def)
  have c: "effectiveRetry clientDefault chatMessagesQuery = clientDefault"
    by (simp add: effectiveRetry_def chatMessagesQuery_def)
  have p: "effectiveRetry clientDefault notebooksQuery failureCount e \<longrightarrow>
      failureCount < 3 \<and> \<not> auth_failure e"
    unfolding n by (auto simp: notebooksRetry_def auth_failure_def split: if_splits)
  from retries_notebooks_bound [of 0 errs]
  have b: "retries (effectiveRetry clientDefault notebooksQuery) 0 errs \<le> 3"
    "retries (effectiveRetry clientDefault notebooksQuery) 0 errs
       \<le> length (takeWhile (\<lambda>e. \<not> auth_failure e) errs)"
    unfolding n by simp_all
  from p b c show ?thesis by (intro conjI)
qed

text \<open>The theorem at a network failure after two failures, with runs of failures.\<close>

theorem C8_retry_policy_witness:
  "effectiveRetry libraryDefaultRetry notebooksQuery 2 network_down
   \<and> \<not> auth_failure network_down
   \<and> retries (effectiveRetry libraryDefaultRetry notebooksQuery) 0
        [network_down, network_down, network_down, network_down, network_down] = 3
   \<and> auth_failure jwt_expired
   \<and> retries (effectiveRetry libraryDefaultRetry notebooksQuery) 0
        [network_down, jwt_expired, network_down] = 1"
proof -
  have n: "effectiveRetry libraryDefaultRetry notebooksQuery = notebooksRetry"
    by (simp add: effectiveRetry_def notebooksQuery_def)
  have na: "\<not> auth_failure network_down" by (rule network_not_auth)
  have a: "auth_failure jwt_expired" by (rule jwt_is_auth)
  have nr: "\<And>k. notebooksRetry k network_down = (k < 3)"
    using na by (simp add: notebooksRetry_def auth_failure_def)
  have jr: "\<And>k. \<not> notebooksRetry k jwt_expired"
    using a by (auto simp: notebooksRetry_def auth_failure_def)
  have h: "effectiveRetry libraryDefaultRetry notebooksQuery 2 network_down"
    unfolding n by (simp add: nr)
  from C8_retry_policy [of libraryDefaultRetry 2 network_down] h
  have concl: "\<not> auth_failure network_down" by blast
  have r5: "retries (effectiveRetry libraryDefaultRetry notebooksQuery) 0
        [network_down, network_down, network_down, network_down, network_down] = 3"
    unfolding n by (simp add: nr)
  have r1: "retries (effectiveRetry libraryDefaultRetry notebooksQuery) 0
        [network_down, jwt_expired, network_down] = 1"
    unfolding n by (simp add: nr jr)
  from h concl r5 a r1 show ?thesis by (intro conjI)
qed

text \<open>Claim C8 as stated fails for the chat-messages query under the library's default:
  a failure whose message is \<^verbatim>\<open>JWT expired\<close> is retried, three times.\<close>

theorem C8_chat_messages_retry_counterexample:
  "auth_failure jwt_expired
   \<and> effectiveRetry libraryDefaultRetry chatMessagesQuery 0 jwt_expired
   \<and> retries (effectiveRetry libraryDefaultRetry chatMessagesQuery) 0
        [jwt_expired, jwt_expired, jwt_expired, jwt_expired] = 3"
proof -
  have c: "effectiveRetry libraryDefaultRetry chatMessagesQuery = libraryDefaultRetry"
    by (simp add: effectiveRetry_def chatMessagesQuery_def)
  show ?thesis unfolding c using jwt_is_auth by (simp add: libraryDefaultRetry_def)
qed

subsection \<open>The pre-flight request\<close>

text \<open>
  Claim C9, as amended. For every OPTIONS request, the send-chat-message handler and both
  versions of the create-notebook handler return a response with no body, the permissive
  CORS headers and the status 200 (no status is given to the response), and write nothing.
\<close>

theorem C9_preflight_status:
  "req_method req = ''OPTIONS'' \<longrightarrow>
     sendChatMessage env req table =
       (\<lparr>status = 200, headers = corsHeaders, body = NoBody\<rparr>, table)
     \<and> createNotebookBackendFirst nenv req notebooks =
       (\<lparr>status = 200, headers = corsHeaders, body = NoBody\<rparr>, notebooks)
     \<and> createNotebookStoreFirst nenv req notebooks =
       (\<lparr>status = 200, headers = corsHeaders, body = NoBody\<rparr>, notebooks)"
  by (simp add: sendChatMessage_def createNotebookBackendFirst_def createNotebookStoreFirst_def
      new_Response_def)

theorem C9_preflight_status_witness:
  "req_method options_request = ''OPTIONS''
   \<and> sendChatMessage demo_chat_env options_request [row_r1] =
       (\<lparr>status = 200, headers = corsHeaders, body = NoBody\<rparr>, [row_r1])
   \<and> createNotebookBackendFirst demo_notebook_env options_request [] =
       (\<lparr>status = 200, headers = corsHeaders, body = NoBody\<rparr>, [])
   \<and> createNotebookStoreFirst demo_notebook_env options_request [] =
       (\<lparr>status = 200, headers = corsHeaders, body = NoBody\<rparr>, [])"
proof -
  have h: "req_method options_request = ''OPTIONS''" by (simp add: options_request_def)
  from C9_preflight_status [of options_request demo_chat_env "[row_r1]" demo_notebook_env "[]"] h
  have c: "sendChatMessage demo_chat_env options_request [row_r1] =
       (\<lparr>status = 200, headers = corsHeaders, body = NoBody\<rparr>, [row_r1])
   \<and> createNotebookBackendFirst demo_notebook_env options_request [] =
       (\<lparr>status = 200, headers = corsHeaders, body = NoBody\<rparr>, [])
   \<and> createNotebookStoreFirst demo_notebook_env options_request [] =
       (\<lparr>status = 200, headers = corsHeaders, body = NoBody\<rparr>, [])"
    by blast
  from h c show ?thesis by (intro conjI) simp_all
qed

text \<open>Claim C9 as stated fails: the status of the answer to an OPTIONS request is 200, not
  204.\<close>

theorem C9_preflight_status_counterexample:
  "req_method options_request = ''OPTIONS''
   \<and> status (fst (sendChatMessage demo_chat_env options_request [])) = 200
   \<and> status (fst (createNotebookBackendFirst demo_notebook_env options_request [])) = 200
   \<and> status (fst (createNotebookStoreFirst demo_notebook_env options_request [])) = 200
   \<and> status (fst (sendChatMessage demo_chat_env options_request [])) \<noteq> 204"
  by (simp add: sendChatMessage_def createNotebookBackendFirst_def createNotebookStoreFirst_def
      new_Response_def options_request_def)

subsection \<open>send-chat-message writes a row only after the backend succeeded\<close>

lemma sendChatMessage_try_table:
  "sendChatMessage_try env req table = Inr (resp, table') \<Longrightarrow>
   status resp = 200 \<and>
   (\<exists>b notebook backendResponse backendData.
      req_json req = Inr b
      \<and> notebook_single env (get b ''notebookId'') = Inr notebook
      \<and> fetch_chat env (Obj [(''message'', get b ''message''),
                              (''notebook_id'', get b ''notebookId''),
                              (''user_id'', Str (user_id notebook))]) = Inr backendResponse
      \<and> ok backendResponse
      \<and> backend_json backendResponse = Inr backendData)"
  by (auto simp: sendChatMessage_try_def Let_def new_Response_def
      split: sum.splits if_splits prod.splits)

lemma sendChatMessage_error:
  "sendChatMessage_try env req table = Inl e \<Longrightarrow> req_method req \<noteq> ''OPTIONS'' \<Longrightarrow>
   sendChatMessage env req table =
     (\<lparr>status = 500, headers = jsonHeaders,
       body = ErrorPayload (message_or e ''Failed to process chat message'')\<rparr>, table)"
  by (simp add: sendChatMessage_def new_Response_def)

lemma decimal_503: "decimal 503 = ''503''"
  by code_simp

text \<open>
  Claim C10. For a request with a notebook id and a message: when the notebook lookup
  fails, the handler returns status 500 with the error payload
  \<^verbatim>\<open>Failed to fetch notebook: ...\<close> and the chat\_messages table is unchanged; when the
  backend answers with a non-OK status, it returns status 500 with an error payload
  (\<^verbatim>\<open>Backend API error: <status>\<close> when the body of the answer can be read) and the
  table is unchanged. For every request, a response whose status is not 200 leaves the
  table unchanged, and the table changes only when the backend answered OK with a body
  that decodes.
\<close>

theorem C10_insert_only_after_backend_success:
  "(req_method req \<noteq> ''OPTIONS'' \<and> req_json req = Inr b \<and> \<not> nullish b
      \<and> truthy (get b ''notebookId'') \<and> truthy (get b ''message'')
      \<and> notebook_single env (get b ''notebookId'') = Inl m
    \<longrightarrow> sendChatMessage env req table =
          (\<lparr>status = 500, headers = jsonHeaders,
            body = ErrorPayload (Given (''Failed to fetch notebook: '' @ m))\<rparr>, table))
   \<and> (req_method req \<noteq> ''OPTIONS'' \<and> req_json req = Inr b \<and> \<not> nullish b
      \<and> truthy (get b ''notebookId'') \<and> truthy (get b ''message'')
      \<and> notebook_single env (get b ''notebookId'') = Inr notebook
      \<and> fetch_chat env (Obj [(''message'', get b ''message''),
                              (''notebook_id'', get b ''notebookId''),
                              (''user_id'', Str (user_id notebook))]) = Inr backendResponse
      \<and> \<not> ok backendResponse
    \<longrightarrow> sendChatMessage env req table =
          (\<lparr>status = 500, headers = jsonHeaders,
            body = ErrorPayload
                     (case backend_text backendResponse of
                        Inl e \<Rightarrow> message_or e ''Failed to process chat message''
                      | Inr errorText \<Rightarrow>
                          Given (''Backend API error: ''
                                 @ decimal (backend_status backendResponse)))\<rparr>,
           table))
   \<and> (status (fst (sendChatMessage env req table)) \<noteq> 200
    \<longrightarrow> snd (sendChatMessage env req table) = table)
   \<and> (snd (sendChatMessage env req table) \<noteq> table
    \<longrightarrow> (\<exists>b' notebook' backendResponse' backendData.
          req_json req = Inr b'
          \<and> notebook_single env (get b' ''notebookId'') = Inr notebook'
          \<and> fetch_chat env (Obj [(''message'', get b' ''message''),
                                  (''notebook_id'', get b' ''notebookId''),
                                  (''user_id'', Str (user_id notebook'))]) = Inr backendResponse'
          \<and> ok backendResponse'
          \<and> backend_json backendResponse' = Inr backendData))"
proof (intro conjI impI)
  assume a: "req_method req \<noteq> ''OPTIONS'' \<and> req_json req = Inr b \<and> \<not> nullish b
      \<and> truthy (get b ''notebookId'') \<and> truthy (get b ''message'')
      \<and> notebook_single env (get b ''notebookId'') = Inl m"
  then have "sendChatMessage_try env req table = Inl (Error (''Failed to fetch notebook: '' @ m))"
    by (simp add: sendChatMessage_try_def Let_def)
  from sendChatMessage_error [OF this] a
  show "sendChatMessage env req table =
          (\<lparr>status = 500, headers = jsonHeaders,
            body = ErrorPayload (Given (''Failed to fetch notebook: '' @ m))\<rparr>, table)"
    by simp
next
  assume a: "req_method req \<noteq> ''OPTIONS'' \<and> req_json req = Inr b \<and> \<not> nullish b
      \<and> truthy (get b ''notebookId'') \<and> truthy (get b ''message'')
      \<and> notebook_single env (get b ''notebookId'') = Inr notebook
      \<and> fetch_chat env (Obj [(''message'', get b ''message''),
                              (''notebook_id'', get b ''notebookId''),
                              (''user_id'', Str (user_id notebook))]) = Inr backendResponse
      \<and> \<not> ok backendResponse"
  then have "sendChatMessage_try env req table =
               Inl (case backend_text backendResponse of
                      Inl e \<Rightarrow> e
                    | Inr errorText \<Rightarrow>
                        Error (''Backend API error: '' @ decimal (backend_status backendResponse)))"
    by (simp add: sendChatMessage_try_def Let_def split: sum.splits)
  from sendChatMessage_error [OF this] a
  show "sendChatMessage env req table =
          (\<lparr>status = 500, headers = jsonHeaders,
            body = ErrorPayload
                     (case backend_text backendResponse of
                        Inl e \<Rightarrow> message_or e ''Failed to process chat message''
                      | Inr errorText \<Rightarrow>
                          Given (''Backend API error: ''
                                 @ decimal (backend_status backendResponse)))\<rparr>,
           table)"
    by (simp split: sum.splits)
next
  assume a: "status (fst (sendChatMessage env req table)) \<noteq> 200"
  show "snd (sendChatMessage env req table) = table"
  proof (cases "req_method req = ''OPTIONS''")
    case True
    then show ?thesis by (simp add: sendChatMessage_def)
  next
    case False
    show ?thesis
    proof (cases "sendChatMessage_try env req table")
      case (Inl e)
      with False show ?thesis by (simp add: sendChatMessage_def)
    next
      case (Inr r)
      obtain resp table' where r: "r = (resp, table')" by (cases r)
      from sendChatMessage_try_table [OF Inr [unfolded r]] have "status resp = 200" by blast
      with a False Inr r show ?thesis by (simp add: sendChatMessage_def)
    qed
  qed
next
  assume a: "snd (sendChatMessage env req table) \<noteq> table"
  then have no: "req_method req \<noteq> ''OPTIONS''" by (auto simp: sendChatMessage_def)
  from a no obtain resp table' where
    "sendChatMessage_try env req table = Inr (resp, table')"
    by (cases "sendChatMessage_try env req table") (auto simp: sendChatMessage_def)
  from sendChatMessage_try_table [OF this]
  show "\<exists>b' notebook' backendResponse' backendData.
          req_json req = Inr b'
          \<and> notebook_single env (get b' ''notebookId'') = Inr notebook'
          \<and> fetch_chat env (Obj [(''message'', get b' ''message''),
                                  (''notebook_id'', get b' ''notebookId''),
                                  (''user_id'', Str (user_id notebook'))]) = Inr backendResponse'
          \<and> ok backendResponse'
          \<and> backend_json backendResponse' = Inr backendData"
    by blast
qed

text \<open>The theorem at a request for a notebook that does not exist, and at a request for n1
  with the backend answering 503.\<close>

theorem C10_insert_only_after_backend_success_witness:
  "req_method (chat_request ''zz'') \<noteq> ''OPTIONS''
   \<and> notebook_single demo_chat_env (Str ''zz'') = Inl ''no rows returned''
   \<and> sendChatMessage demo_chat_env (chat_request ''zz'') [row_r1] =
       (\<lparr>status = 500, headers = jsonHeaders,
         body = ErrorPayload (Given ''Failed to fetch notebook: no rows returned'')\<rparr>, [row_r1])
   \<and> fetch_chat demo_chat_env
         (Obj [(''message'', Str ''Hello''), (''notebook_id'', Str ''n1''), (''user_id'', Str ''u1'')]) =
       Inr \<lparr>ok = False, backend_status = 503, backend_json = Inl SyntaxError,
            backend_text = Inr ''Service Unavailable''\<rparr>
   \<and> sendChatMessage demo_chat_env (chat_request ''n1'') [row_r1] =
       (\<lparr>status = 500, headers = jsonHeaders,
         body = ErrorPayload (Given ''Backend API error: 503'')\<rparr>, [row_r1])"
proof -
  let ?bz = "Obj [(''notebookId'', Str ''zz''), (''message'', Str ''Hello'')]"
  let ?bn = "Obj [(''notebookId'', Str ''n1''), (''message'', Str ''Hello'')]"
  let ?nb = "\<lparr>selected_books = Some [''b1''], selected_genres = Some [''science''],
             user_id = ''u1''\<rparr>"
  let ?resp = "\<lparr>ok = False, backend_status = 503, backend_json = Inl SyntaxError,
               backend_text = Inr ''Service Unavailable''\<rparr>"
  have m: "\<And>i. req_method (chat_request i) \<noteq> ''OPTIONS''" by (simp add: chat_request_def)
  have jz: "req_json (chat_request ''zz'') = Inr ?bz" by (simp add: chat_request_def)
  have jn: "req_json (chat_request ''n1'') = Inr ?bn" by (simp add: chat_request_def)
  have lz: "notebook_single demo_chat_env (get ?bz ''notebookId'') = Inl ''no rows returned''"
    by (simp add: demo_chat_env_def)
  have ln: "notebook_single demo_chat_env (get ?bn ''notebookId'') = Inr ?nb"
    by (simp add: demo_chat_env_def)
  have f: "fetch_chat demo_chat_env
             (Obj [(''message'', get ?bn ''message''), (''notebook_id'', get ?bn ''notebookId''),
                   (''user_id'', Str (user_id ?nb))]) = Inr ?resp"
    by (simp add: demo_chat_env_def)
  have nok: "\<not> ok ?resp" by simp
  have tz: "\<not> nullish ?bz \<and> truthy (get ?bz ''notebookId'') \<and> truthy (get ?bz ''message'')"
    by simp
  have tn: "\<not> nullish ?bn \<and> truthy (get ?bn ''notebookId'') \<and> truthy (get ?bn ''message'')"
    by simp
  from C10_insert_only_after_backend_success
         [of "chat_request ''zz''" ?bz demo_chat_env "''no rows returned''" "[row_r1]"]
       m jz lz tz
  have r1: "sendChatMessage demo_chat_env (chat_request ''zz'') [row_r1] =
       (\<lparr>status = 500, headers = jsonHeaders,
         body = ErrorPayload (Given (''Failed to fetch notebook: '' @ ''no rows returned''))\<rparr>,
        [row_r1])"
    by blast
  from C10_insert_only_after_backend_success
         [of "chat_request ''n1''" ?bn demo_chat_env _ "[row_r1]" ?nb ?resp]
       m jn ln f nok tn
  have r2: "sendChatMessage demo_chat_env (chat_request ''n1'') [row_r1] =
       (\<lparr>status = 500, headers = jsonHeaders,
         body = ErrorPayload
                  (case backend_text ?resp of
                     Inl e \<Rightarrow> message_or e ''Failed to process chat message''
                   | Inr errorText \<Rightarrow>
                       Given (''Backend API error: '' @ decimal (backend_status ?resp)))\<rparr>,
        [row_r1])"
    by blast
  from f have f': "fetch_chat demo_chat_env
         (Obj [(''message'', Str ''Hello''), (''notebook_id'', Str ''n1''), (''user_id'', Str ''u1'')]) =
       Inr ?resp" by simp
  from lz have lz': "notebook_single demo_chat_env (Str ''zz'') = Inl ''no rows returned''"
    by simp
  from r1 have r1': "sendChatMessage demo_chat_env (chat_request ''zz'') [row_r1] =
       (\<lparr>status = 500, headers = jsonHeaders,
         body = ErrorPayload (Given ''Failed to fetch notebook: no rows returned'')\<rparr>, [row_r1])"
    by simp
  from r2 have r2': "sendChatMessage demo_chat_env (chat_request ''n1'') [row_r1] =
       (\<lparr>status = 500, headers = jsonHeaders,
         body = ErrorPayload (Given ''Backend API error: 503'')\<rparr>, [row_r1])"
    by (simp add: decimal_503)
  from m [of "''zz''"] lz' r1' f' r2' show ?thesis by (intro conjI)
qed

end
